theory Spec2Isabelle
  imports Complex_Main "HOL-Library.AList"
begin

section \<open>JavaScript strings\<close>

text \<open>
  Strings are lists of 8-bit characters: the model covers the code units below 256.
  \<open>js_space\<close> is the set matched by \<open>String.prototype.trim\<close> and by the regular
  expression class \<open>\s\<close> in that range (tab, line feed, vertical tab, form feed,
  carriage return, space, no-break space).
\<close>

definition js_space :: "char \<Rightarrow> bool" where
  "js_space c \<longleftrightarrow> (of_char c :: nat) \<in> {9, 10, 11, 12, 13, 32, 160}"

definition line_terminator :: "char \<Rightarrow> bool" where
  "line_terminator c \<longleftrightarrow> (of_char c :: nat) \<in> {10, 13}"

definition ascii_letter :: "char \<Rightarrow> bool" where
  "ascii_letter c \<longleftrightarrow>
     (let n = (of_char c :: nat) in (65 \<le> n \<and> n \<le> 90) \<or> (97 \<le> n \<and> n \<le> 122))"

definition decimal_digit :: "char \<Rightarrow> bool" where
  "decimal_digit c \<longleftrightarrow> (let n = (of_char c :: nat) in 48 \<le> n \<and> n \<le> 57)"

definition trim :: "string \<Rightarrow> string" where
  "trim s = rev (dropWhile js_space (rev (dropWhile js_space s)))"

definition startsWith :: "string \<Rightarrow> string \<Rightarrow> bool" where
  "startsWith s p \<longleftrightarrow> take (length p) s = p"

definition endsWith :: "string \<Rightarrow> string \<Rightarrow> bool" where
  "endsWith s p \<longleftrightarrow> length p \<le> length s \<and> drop (length s - length p) s = p"

definition lower_char :: "char \<Rightarrow> char" where
  "lower_char c =
     (let n = (of_char c :: nat)
      in if (65 \<le> n \<and> n \<le> 90) \<or> (192 \<le> n \<and> n \<le> 222 \<and> n \<noteq> 215)
         then char_of (n + 32) else c)"

definition toLowerCase :: "string \<Rightarrow> string" where
  "toLowerCase s = map lower_char s"

text \<open>\<open>s.split(/\s+/)[0]\<close>: the characters before the first run of whitespace.\<close>

definition first_token :: "string \<Rightarrow> string" where
  "first_token s = takeWhile (\<lambda>c. \<not> js_space c) s"

text \<open>\<open>String(n)\<close> for an integer: its decimal numeral.\<close>

fun string_of_nat :: "nat \<Rightarrow> string" where
  "string_of_nat n =
     (if n < 10 then [char_of (48 + n)]
      else string_of_nat (n div 10) @ [char_of (48 + n mod 10)])"

declare string_of_nat.simps [simp del]

definition String_int :: "int \<Rightarrow> string" where
  "String_int i = (if i < 0 then CHR ''-'' # string_of_nat (nat (- i)) else string_of_nat (nat i))"

definition newline :: string where
  "newline = [char_of (10 :: nat)]"

fun join_lines :: "string list \<Rightarrow> string" where
  "join_lines [] = []"
| "join_lines [l] = l"
| "join_lines (l # ls) = l @ newline @ join_lines ls"

section \<open>JavaScript values\<close>

text \<open>
  A number is not-a-number, an infinity or a finite value. Finite values are kept as
  rationals (every double is one); rounding is not modelled.
\<close>

datatype jsnum = NaN | PosInf | NegInf | Fin rat

datatype json =
    JNull
  | JBool bool
  | JNum jsnum
  | JStr string
  | JArr "json list"
  | JObj "(string \<times> json) list"

text \<open>A value that may be \<open>undefined\<close> is a \<open>json option\<close>, \<open>None\<close> being \<open>undefined\<close>.\<close>

fun truthy :: "json \<Rightarrow> bool" where
  "truthy JNull = False"
| "truthy (JBool b) = b"
| "truthy (JNum n) = (n \<noteq> NaN \<and> n \<noteq> Fin 0)"
| "truthy (JStr s) = (s \<noteq> [])"
| "truthy (JArr _) = True"
| "truthy (JObj _) = True"

fun truthy_opt :: "json option \<Rightarrow> bool" where
  "truthy_opt None = False"
| "truthy_opt (Some v) = truthy v"

text \<open>\<open>typeof v === "object"\<close> (true of \<open>null\<close>, of arrays and of objects).\<close>

fun typeof_object :: "json \<Rightarrow> bool" where
  "typeof_object JNull = True"
| "typeof_object (JArr _) = True"
| "typeof_object (JObj _) = True"
| "typeof_object _ = False"

text \<open>
  \<open>v.k\<close> on a defined, non-null value for the property names the code reads
  (\<open>products\<close>, \<open>title\<close>, \<open>price\<close>, \<open>price_eur\<close>, \<open>value\<close>): only an object
  parsed from JSON has them.
\<close>

fun get_prop :: "json \<Rightarrow> string \<Rightarrow> json option" where
  "get_prop (JObj kvs) k = map_of kvs k"
| "get_prop _ k = None"

text \<open>\<open>a ?? b\<close>: \<open>b\<close> when \<open>a\<close> is \<open>undefined\<close> or \<open>null\<close>.\<close>

fun nullish_or :: "json option \<Rightarrow> json option \<Rightarrow> json option" where
  "nullish_or None b = b"
| "nullish_or (Some JNull) b = b"
| "nullish_or (Some v) b = Some v"

text \<open>
  The built-ins of the platform that the code calls and that this development does not
  define: \<open>JSON.parse\<close> (\<open>None\<close> when it throws a SyntaxError), the conversion to a
  number of a string, an array or an object (inside \<open>Number(v)\<close>), and
  \<open>encodeURIComponent\<close>.
\<close>

record builtins =
  JSON_parse :: "string \<Rightarrow> json option"
  to_number :: "json \<Rightarrow> jsnum"
  encodeURIComponent :: "string \<Rightarrow> string"

text \<open>\<open>Number(v)\<close>.\<close>

fun Number_js :: "builtins \<Rightarrow> json option \<Rightarrow> jsnum" where
  "Number_js B None = NaN"
| "Number_js B (Some JNull) = Fin 0"
| "Number_js B (Some (JBool b)) = (if b then Fin 1 else Fin 0)"
| "Number_js B (Some (JNum n)) = n"
| "Number_js B (Some v) = to_number B v"

fun isFinite :: "jsnum \<Rightarrow> bool" where
  "isFinite (Fin _) = True"
| "isFinite _ = False"

text \<open>\<open>n <= 0\<close> on numbers (false when \<open>n\<close> is not-a-number).\<close>

fun le_zero :: "jsnum \<Rightarrow> bool" where
  "le_zero (Fin q) = (q \<le> 0)"
| "le_zero NegInf = True"
| "le_zero _ = False"

text \<open>A template literal renders an unset environment variable as \<open>undefined\<close>.\<close>

fun template :: "string option \<Rightarrow> string" where
  "template None = ''undefined''"
| "template (Some s) = s"

section \<open>The environment and the network\<close>

record env =
  TELEGRAM_WEBHOOK_SECRET_TOKEN :: "string option"
  TELEGRAM_BOT_TOKEN :: "string option"
  TELEGRAM_ALLOWED_CHAT_IDS :: "string option"
  GITHUB_TOKEN :: "string option"
  GITHUB_OWNER :: "string option"
  GITHUB_REPO :: "string option"
  GITHUB_EVENT_TYPE :: "string option"
  STRATEGY_PROFILE :: "string option"
  SCAN_SECRET :: "string option"

text \<open>A string from the environment is truthy when it is set and not empty.\<close>

fun set_nonempty :: "string option \<Rightarrow> bool" where
  "set_nonempty None = False"
| "set_nonempty (Some s) = (s \<noteq> [])"

definition DEFAULT_DISPATCH_EVENT :: string where
  "DEFAULT_DISPATCH_EVENT = ''scan''"

definition envOrDefault :: "string option \<Rightarrow> string \<Rightarrow> string" where
  "envOrDefault v fallback =
     (case v of
        None \<Rightarrow> fallback
      | Some s \<Rightarrow> if s = [] \<or> trim s = [] then fallback else trim s)"

text \<open>
  One call of \<open>fetch\<close>: the URL, the method, the bearer token of the Authorization
  header when there is one, and the body before \<open>JSON.stringify\<close>.
\<close>

record fetch_call =
  url :: string
  http_method :: string
  bearer :: "string option"
  payload :: "json option"

text \<open>
  What a call of \<open>fetch\<close> gives: a rejection (an Error with a message) or a response
  with its status and body text. \<open>response.ok\<close> is the status being in 200..299.
  The world is the result of the first, second, ... call of one invocation.
\<close>

datatype fetch_result = NetworkError string | Response int string

type_synonym world = "nat \<Rightarrow> fetch_result"

definition status_ok :: "int \<Rightarrow> bool" where
  "status_ok s \<longleftrightarrow> 200 \<le> s \<and> s \<le> 299"

text \<open>
  An asynchronous computation: from the calls made so far to a thrown Error (its
  message, \<open>Inl\<close>) or a value, and the calls made.
\<close>

type_synonym 'a io = "fetch_call list \<Rightarrow> (string + 'a) \<times> fetch_call list"

definition return_io :: "'a \<Rightarrow> 'a io" where
  "return_io x = (\<lambda>tr. (Inr x, tr))"

definition throw_io :: "string \<Rightarrow> 'a io" where
  "throw_io e = (\<lambda>tr. (Inl e, tr))"

definition bind_io :: "'a io \<Rightarrow> ('a \<Rightarrow> 'b io) \<Rightarrow> 'b io" where
  "bind_io m f = (\<lambda>tr. case m tr of (Inl e, tr') \<Rightarrow> (Inl e, tr') | (Inr x, tr') \<Rightarrow> f x tr')"

text \<open>\<open>try { m } catch { }\<close>: the error is swallowed.\<close>

definition swallow :: "unit io \<Rightarrow> unit io" where
  "swallow m = (\<lambda>tr. case m tr of (_, tr') \<Rightarrow> (Inr (), tr'))"

definition fetch :: "world \<Rightarrow> fetch_call \<Rightarrow> (int \<times> string) io" where
  "fetch w c = (\<lambda>tr. case w (length tr) of
       NetworkError e \<Rightarrow> (Inl e, tr @ [c])
     | Response s t \<Rightarrow> (Inr (s, t), tr @ [c]))"

text \<open>\<open>dispatchToGitHub\<close> (the same function in both files).\<close>

definition dispatch_url :: "string option \<Rightarrow> string option \<Rightarrow> string" where
  "dispatch_url owner repo =
     ''https://api.github.com/repos/'' @ template owner @ ''/'' @ template repo @ ''/dispatches''"

definition dispatch_call ::
  "string option \<Rightarrow> string option \<Rightarrow> string option \<Rightarrow> string \<Rightarrow> json \<Rightarrow> fetch_call" where
  "dispatch_call githubToken owner repo eventType pl =
     \<lparr> url = dispatch_url owner repo, http_method = ''POST'',
       bearer = Some (template githubToken),
       payload = Some (JObj [(''event_type'', JStr eventType), (''client_payload'', pl)]) \<rparr>"

definition dispatchToGitHub ::
  "world \<Rightarrow> string option \<Rightarrow> string option \<Rightarrow> string option \<Rightarrow> string \<Rightarrow> json \<Rightarrow> unit io" where
  "dispatchToGitHub w githubToken owner repo eventType pl =
     bind_io (fetch w (dispatch_call githubToken owner repo eventType pl))
       (\<lambda>(s, t). if \<not> status_ok s
                 then throw_io (''GitHub dispatch failed: '' @ String_int s @ '' '' @ t)
                 else return_io ())"

section \<open>The direct trigger endpoint\<close>

record http_response =
  statusCode :: int
  jsonBody :: json

definition respond :: "int \<Rightarrow> (string \<times> json) list \<Rightarrow> http_response" where
  "respond s kvs = \<lparr> statusCode = s, jsonBody = JObj kvs \<rparr>"

record scan_request =
  scan_method :: string
  scan_authorization :: "string option"
  scan_body :: "json option"

subsection \<open>The normalizer\<close>

text \<open>
  \<open>parseProducts\<close> and its inner \<open>normalize\<close> (here \<open>normalize_product\<close>), as in the
  revision of the endpoint that the tests describe (it follows the router in
  \<open>api/telegram-webhook.js\<close>). Only an object gets to the spread
  \<open>{ ...candidate, title, price_eur: price }\<close>: an array has no \<open>title\<close> and is refused
  before. The spread keeps the fields of the candidate in their order; \<open>title\<close> and
  \<open>price_eur\<close> replace the fields of that name or come last.
\<close>

definition normalize_product :: "builtins \<Rightarrow> json \<Rightarrow> json option" where
  "normalize_product B candidate =
     (if \<not> truthy candidate \<or> \<not> typeof_object candidate then None
      else
        let title = (case get_prop candidate ''title'' of
                       Some (JStr s) \<Rightarrow> trim s | _ \<Rightarrow> []);
            priceRaw = nullish_or (get_prop candidate ''price_eur'') (get_prop candidate ''price'');
            price = Number_js B priceRaw
        in if title = [] \<or> \<not> isFinite price \<or> le_zero price then None
           else (case candidate of
                   JObj kvs \<Rightarrow>
                     Some (JObj (AList.update ''price_eur'' (JNum price)
                                   (AList.update ''title'' (JStr title) kvs)))
                 | _ \<Rightarrow> None))"

text \<open>\<open>normalized ? [normalized] : []\<close>.\<close>

fun one_or_none :: "json option \<Rightarrow> json list" where
  "one_or_none None = []"
| "one_or_none (Some n) = [n]"

definition parseProducts :: "builtins \<Rightarrow> json \<Rightarrow> json list" where
  "parseProducts B pl =
     (case get_prop pl ''products'' of
        Some (JArr items) \<Rightarrow> List.map_filter (normalize_product B) items
      | v \<Rightarrow>
          if truthy_opt v \<and> typeof_object (the v)
          then one_or_none (normalize_product B (the v))
          else if truthy pl \<and> typeof_object pl \<and> truthy_opt (get_prop pl ''title'')
          then one_or_none (normalize_product B pl)
          else [])"

text \<open>\<open>parseProducts\<close> as in \<open>api/scan.js\<close>: no normalization.\<close>

definition parseProducts_v0 :: "json \<Rightarrow> json list" where
  "parseProducts_v0 pl =
     (case get_prop pl ''products'' of
        Some (JArr items) \<Rightarrow> filter (\<lambda>item. truthy item \<and> typeof_object item) items
      | v \<Rightarrow>
          if truthy_opt v \<and> typeof_object (the v) then [the v]
          else if truthy pl \<and> typeof_object pl \<and> truthy_opt (get_prop pl ''title'') then [pl]
          else [])"

subsection \<open>The handler\<close>

definition json_of_nat :: "nat \<Rightarrow> json" where
  "json_of_nat n = JNum (Fin (of_nat n))"

text \<open>The part of both handlers after the authentication.\<close>

definition scan_forward :: "env \<Rightarrow> world \<Rightarrow> json list \<Rightarrow> http_response \<times> fetch_call list" where
  "scan_forward E w products =
     (let eventType = envOrDefault (GITHUB_EVENT_TYPE E) DEFAULT_DISPATCH_EVENT
      in if \<not> set_nonempty (GITHUB_TOKEN E) \<or> \<not> set_nonempty (GITHUB_OWNER E)
            \<or> \<not> set_nonempty (GITHUB_REPO E)
         then (respond 500 [(''ok'', JBool False), (''error'', JStr ''Missing env configuration'')], [])
         else if products = []
         then (respond 400 [(''ok'', JBool False), (''error'', JStr ''No valid products supplied'')], [])
         else
           (case dispatchToGitHub w (GITHUB_TOKEN E) (GITHUB_OWNER E) (GITHUB_REPO E) eventType
                   (JObj [(''source'', JStr ''vercel_scan_api''), (''command'', JStr ''scan''),
                          (''products'', JArr products)]) [] of
              (Inr _, tr) \<Rightarrow>
                (respond 202 [(''ok'', JBool True), (''queued'', JBool True),
                              (''product_count'', json_of_nat (length products))], tr)
            | (Inl details, tr) \<Rightarrow>
                (respond 500 [(''ok'', JBool False), (''error'', JStr details)], tr)))"

definition body_or_empty :: "json option \<Rightarrow> json" where
  "body_or_empty b = (case b of Some v \<Rightarrow> if truthy v then v else JObj [] | None \<Rightarrow> JObj [])"

text \<open>The handler of the revision with the fail-closed secret check.\<close>

definition scan_handler ::
  "builtins \<Rightarrow> env \<Rightarrow> world \<Rightarrow> scan_request \<Rightarrow> http_response \<times> fetch_call list" where
  "scan_handler B E w req =
     (if scan_method req \<noteq> ''POST''
      then (respond 405 [(''ok'', JBool False), (''error'', JStr ''Method not allowed'')], [])
      else
        (case SCAN_SECRET E of
           None \<Rightarrow> (respond 500 [(''ok'', JBool False),
                      (''error'', JStr ''Missing env configuration: SCAN_SECRET'')], [])
         | Some scanSecret \<Rightarrow>
             if scanSecret = [] \<or> trim scanSecret = []
             then (respond 500 [(''ok'', JBool False),
                      (''error'', JStr ''Missing env configuration: SCAN_SECRET'')], [])
             else
               let authHeader = (case scan_authorization req of None \<Rightarrow> [] | Some h \<Rightarrow> h)
               in if authHeader \<noteq> ''Bearer '' @ trim scanSecret
                  then (respond 401 [(''ok'', JBool False), (''error'', JStr ''Unauthorized'')], [])
                  else scan_forward E w (parseProducts B (body_or_empty (scan_body req)))))"

text \<open>The handler of \<open>api/scan.js\<close>: the secret is only checked when it is set.\<close>

definition scan_handler_v0 ::
  "env \<Rightarrow> world \<Rightarrow> scan_request \<Rightarrow> http_response \<times> fetch_call list" where
  "scan_handler_v0 E w req =
     (if scan_method req \<noteq> ''POST''
      then (respond 405 [(''ok'', JBool False), (''error'', JStr ''Method not allowed'')], [])
      else
        let authHeader = (case scan_authorization req of None \<Rightarrow> [] | Some h \<Rightarrow> h)
        in if set_nonempty (SCAN_SECRET E) \<and> authHeader \<noteq> ''Bearer '' @ template (SCAN_SECRET E)
           then (respond 401 [(''ok'', JBool False), (''error'', JStr ''Unauthorized'')], [])
           else scan_forward E w (parseProducts_v0 (body_or_empty (scan_body req))))"

section \<open>The clients of the command router\<close>

definition TELEGRAM_API_BASE :: string where
  "TELEGRAM_API_BASE = ''https://api.telegram.org''"

definition MAX_LAST_LIMIT :: int where
  "MAX_LAST_LIMIT = 10"

definition STRATEGY_PROFILE_VAR :: string where
  "STRATEGY_PROFILE_VAR = ''STRATEGY_PROFILE''"

definition STRATEGY_PROFILES :: "string list" where
  "STRATEGY_PROFILES = [''conservative'', ''balanced'', ''aggressive'']"

definition json_of_int :: "int \<Rightarrow> json" where
  "json_of_int i = JNum (Fin (of_int i))"

definition reply_call :: "string \<Rightarrow> int \<Rightarrow> string \<Rightarrow> fetch_call" where
  "reply_call botToken chatId text =
     \<lparr> url = TELEGRAM_API_BASE @ ''/bot'' @ botToken @ ''/sendMessage'',
       http_method = ''POST'', bearer = None,
       payload = Some (JObj [(''chat_id'', json_of_int chatId), (''text'', JStr text),
                             (''disable_web_page_preview'', JBool True)]) \<rparr>"

definition sendTelegramMessage :: "world \<Rightarrow> string \<Rightarrow> int \<Rightarrow> string \<Rightarrow> unit io" where
  "sendTelegramMessage w botToken chatId text =
     bind_io (fetch w (reply_call botToken chatId text))
       (\<lambda>(s, t). if \<not> status_ok s
                 then throw_io (''Telegram sendMessage failed: '' @ String_int s @ '' '' @ t)
                 else return_io ())"

record api_result =
  res_status :: int
  res_text :: string
  res_json :: json

definition res_ok :: "api_result \<Rightarrow> bool" where
  "res_ok r = status_ok (res_status r)"

definition api_call :: "string option \<Rightarrow> string \<Rightarrow> string \<Rightarrow> json option \<Rightarrow> fetch_call" where
  "api_call githubToken method path body =
     \<lparr> url = ''https://api.github.com'' @ path, http_method = method,
       bearer = Some (template githubToken), payload = body \<rparr>"

definition githubApiRequest ::
  "builtins \<Rightarrow> world \<Rightarrow> string option \<Rightarrow> string \<Rightarrow> string \<Rightarrow> json option \<Rightarrow> api_result io" where
  "githubApiRequest B w githubToken method path body =
     bind_io (fetch w (api_call githubToken method path body))
       (\<lambda>(s, t). return_io \<lparr> res_status = s, res_text = t,
                    res_json = (if t = [] then JNull
                                else (case JSON_parse B t of Some j \<Rightarrow> j | None \<Rightarrow> JNull)) \<rparr>)"

definition variable_path :: "builtins \<Rightarrow> string option \<Rightarrow> string option \<Rightarrow> string \<Rightarrow> string" where
  "variable_path B owner repo name =
     ''/repos/'' @ template owner @ ''/'' @ template repo @ ''/actions/variables/''
       @ encodeURIComponent B name"

definition variables_path :: "string option \<Rightarrow> string option \<Rightarrow> string" where
  "variables_path owner repo =
     ''/repos/'' @ template owner @ ''/'' @ template repo @ ''/actions/variables''"

definition getGitHubVariable ::
  "builtins \<Rightarrow> world \<Rightarrow> string option \<Rightarrow> string option \<Rightarrow> string option \<Rightarrow> string \<Rightarrow> json io" where
  "getGitHubVariable B w githubToken owner repo name =
     bind_io (githubApiRequest B w githubToken ''GET'' (variable_path B owner repo name) None)
       (\<lambda>result.
          if res_status result = 404 then return_io JNull
          else if \<not> res_ok result
          then throw_io (''GitHub variable read failed: '' @ String_int (res_status result)
                           @ '' '' @ res_text result)
          else return_io (if truthy (res_json result) then res_json result else JNull))"

definition variable_body :: "string \<Rightarrow> string \<Rightarrow> json" where
  "variable_body name v = JObj [(''name'', JStr name), (''value'', JStr v)]"

definition upsertGitHubVariable ::
  "builtins \<Rightarrow> world \<Rightarrow> string option \<Rightarrow> string option \<Rightarrow> string option \<Rightarrow> string \<Rightarrow> string
     \<Rightarrow> unit io" where
  "upsertGitHubVariable B w githubToken owner repo name v =
     bind_io (githubApiRequest B w githubToken ''PATCH'' (variable_path B owner repo name)
                (Some (variable_body name v)))
       (\<lambda>update.
          if res_ok update then return_io ()
          else if res_status update \<noteq> 404
          then throw_io (''GitHub variable update failed: '' @ String_int (res_status update)
                           @ '' '' @ res_text update)
          else
            bind_io (githubApiRequest B w githubToken ''POST'' (variables_path owner repo)
                       (Some (variable_body name v)))
              (\<lambda>create.
                 if \<not> res_ok create
                 then throw_io (''GitHub variable create failed: ''
                                  @ String_int (res_status create) @ '' '' @ res_text create)
                 else return_io ()))"

text \<open>The two requests of \<open>upsertGitHubVariable\<close>.\<close>

definition update_call ::
  "builtins \<Rightarrow> string option \<Rightarrow> string option \<Rightarrow> string option \<Rightarrow> string \<Rightarrow> string
     \<Rightarrow> fetch_call" where
  "update_call B githubToken owner repo name v =
     api_call githubToken ''PATCH'' (variable_path B owner repo name) (Some (variable_body name v))"

definition create_call ::
  "string option \<Rightarrow> string option \<Rightarrow> string option \<Rightarrow> string \<Rightarrow> string \<Rightarrow> fetch_call" where
  "create_call githubToken owner repo name v =
     api_call githubToken ''POST'' (variables_path owner repo) (Some (variable_body name v))"

text \<open>A call of \<open>fetch\<close> failed: it was rejected, or the response is not ok.\<close>

fun failed :: "fetch_result \<Rightarrow> bool" where
  "failed (NetworkError e) = True"
| "failed (Response s t) = (\<not> status_ok s)"

fun not_found :: "fetch_result \<Rightarrow> bool" where
  "not_found (NetworkError e) = False"
| "not_found (Response s t) = (s = 404)"

text \<open>
  A remote store, seen from the client: a state and a function that answers one request
  and gives the next state. \<open>run_store\<close> answers a list of requests in order;
  \<open>answered_by\<close> says that the world gave, to the calls of one invocation, the answers
  of the store; \<open>acknowledges\<close> says that a success status for a request carrying
  \<open>{ name, value }\<close> means that the value is held under that name afterwards.
\<close>

fun run_store ::
  "('st \<Rightarrow> fetch_call \<Rightarrow> fetch_result \<times> 'st) \<Rightarrow> 'st \<Rightarrow> fetch_call list
     \<Rightarrow> fetch_result list \<times> 'st" where
  "run_store serve st [] = ([], st)"
| "run_store serve st (c # cs) =
     (case serve st c of
        (r, st1) \<Rightarrow> (case run_store serve st1 cs of (rs, st2) \<Rightarrow> (r # rs, st2)))"

definition answered_by ::
  "world \<Rightarrow> ('st \<Rightarrow> fetch_call \<Rightarrow> fetch_result \<times> 'st) \<Rightarrow> 'st \<Rightarrow> fetch_call list \<Rightarrow> bool" where
  "answered_by w serve st calls \<longleftrightarrow>
     map w [0 ..< length calls] = fst (run_store serve st calls)"

definition acknowledges ::
  "('st \<Rightarrow> fetch_call \<Rightarrow> fetch_result \<times> 'st) \<Rightarrow> ('st \<Rightarrow> string \<Rightarrow> string \<Rightarrow> bool) \<Rightarrow> bool" where
  "acknowledges serve holds \<longleftrightarrow>
     (\<forall>st c n v. payload c = Some (variable_body n v) \<and> \<not> failed (fst (serve st c))
         \<longrightarrow> holds (snd (serve st c)) n v)"

section \<open>Parsing the command arguments\<close>

text \<open>\<open>s.split(",")\<close>.\<close>

fun split_on :: "char \<Rightarrow> string \<Rightarrow> string list" where
  "split_on c [] = [ [] ]"
| "split_on c (x # xs) =
     (if x = c then [] # split_on c xs
      else (case split_on c xs of h # t \<Rightarrow> (x # h) # t | [] \<Rightarrow> [ [x] ]))"

text \<open>The allowlist: the elements of the set, in the order of the configuration string.\<close>

definition parseAllowedChatIds :: "string option \<Rightarrow> string list" where
  "parseAllowedChatIds v =
     filter (\<lambda>item. item \<noteq> [])
       (map trim (split_on CHR '','' (case v of None \<Rightarrow> [] | Some s \<Rightarrow> s)))"

definition code_fence :: string where
  "code_fence = [char_of (96 :: nat), char_of (96 :: nat), char_of (96 :: nat)]"

text \<open>
  \<open>stripCodeFence\<close>: the first replacement removes the opening fence, the letters after
  it and the whitespace after them; the second removes a fence at the very end.
\<close>

definition stripCodeFence :: "string \<Rightarrow> string" where
  "stripCodeFence raw =
     (let text = trim raw
      in if \<not> startsWith text code_fence then text
         else
           let text1 = dropWhile js_space (dropWhile ascii_letter (drop 3 text));
               text2 = (if endsWith text1 code_fence then take (length text1 - 3) text1 else text1)
           in trim text2)"

text \<open>\<open>parseProductsArg\<close>; \<open>None\<close> when \<open>JSON.parse\<close> throws.\<close>

definition parseProductsArg :: "builtins \<Rightarrow> string \<Rightarrow> json list option" where
  "parseProductsArg B arg =
     (case JSON_parse B (stripCodeFence arg) of
        None \<Rightarrow> None
      | Some (JArr items) \<Rightarrow> Some (filter (\<lambda>item. truthy item \<and> typeof_object item) items)
      | Some parsed \<Rightarrow> if truthy parsed \<and> typeof_object parsed then Some [parsed] else Some [])"

datatype profile_arg = ModeShow | ModeInvalid string | ModeSet string

definition parseProfileArg :: "string \<Rightarrow> profile_arg" where
  "parseProfileArg rawArg =
     (let raw = toLowerCase (trim rawArg)
      in if raw = [] \<or> raw = ''show'' \<or> raw = ''get'' \<or> raw = ''status'' then ModeShow
         else
           let token = first_token raw
           in if token \<notin> set STRATEGY_PROFILES then ModeInvalid token else ModeSet token)"

text \<open>
  \<open>Number.parseInt(s, 10)\<close>: leading whitespace, an optional sign, then the longest run
  of decimal digits. No digit gives not-a-number; a numeral beyond the range of doubles
  gives an infinity (from \<open>DOUBLE_OVERFLOW\<close> on, the largest double plus half a unit
  in the last place; an engine may round long numerals a little differently); otherwise
  the integer is kept exactly, where the double is the nearest representable value.
\<close>

datatype parsed_int = ParsedNaN | ParsedInfinity | ParsedInt int

definition digits_value :: "string \<Rightarrow> int" where
  "digits_value ds = foldl (\<lambda>acc c. 10 * acc + (of_char c - 48)) 0 ds"

definition DOUBLE_OVERFLOW :: int where
  "DOUBLE_OVERFLOW = 2 ^ 1024 - 2 ^ 970"

definition parseInt10 :: "string \<Rightarrow> parsed_int" where
  "parseInt10 s =
     (let s1 = dropWhile js_space s;
          neg = (take 1 s1 = ''-'');
          s2 = (if take 1 s1 = ''-'' \<or> take 1 s1 = ''+'' then drop 1 s1 else s1);
          ds = takeWhile decimal_digit s2
      in if ds = [] then ParsedNaN
         else if DOUBLE_OVERFLOW \<le> digits_value ds then ParsedInfinity
         else ParsedInt (if neg then - digits_value ds else digits_value ds))"

text \<open>The limit of \<open>/last\<close>.\<close>

definition last_limit :: "string \<Rightarrow> int" where
  "last_limit args =
     (case parseInt10 (if args = [] then ''5'' else args) of
        ParsedInt requested \<Rightarrow> max 1 (min requested MAX_LAST_LIMIT)
      | _ \<Rightarrow> 5)"

definition commandHelpText :: string where
  "commandHelpText = join_lines
     [''Tech_Sniper_IT comandi:'',
      ''/start - Inizializza il bot'',
      ''/help - Mostra questa guida'',
      ''/id - Mostra chat_id corrente'',
      ''/rules - Mostra regole arbitraggio'',
      ''/scan [json_prodotto|json_array] - Avvia scan su GitHub Actions'',
      ''/smoke - Test veloce (pochi prodotti) su GitHub Actions'',
      ''/status - Stato runtime (via GitHub Actions)'',
      ''/last [n] - Ultime opportunita da Supabase (via GitHub Actions)'',
      ''/profile [show|conservative|balanced|aggressive] - Mostra/imposta strategy profile'']"

definition rulesText :: string where
  "rulesText = join_lines
     [''Regole attive:'',
      ''photography -> MPB + Rebuy (max)'',
      ''apple_phone -> TrendDevice + Rebuy (max)'',
      ''general_tech -> Rebuy'',
      ''Condizioni target: Grado A / Ottimo / Come nuovo'',
      ''Notifica quando spread > MIN_SPREAD_EUR'']"

section \<open>The command router\<close>

text \<open>
  The Update of the chat transport, with the field types of its schema: identifiers are
  integers and the text is a string; every field may be missing. \<open>msg_chat_id\<close> is
  \<open>message?.chat?.id\<close> and \<open>msg_from_id\<close> is \<open>message?.from?.id\<close>.
\<close>

record message =
  msg_chat_id :: "int option"
  msg_from_id :: "int option"
  msg_text :: "string option"

record update =
  upd_message :: "message option"
  upd_edited_message :: "message option"

record webhook_request =
  req_method :: string
  req_secret_token :: "string option"
  req_body :: "update option"

definition ok_response :: http_response where
  "ok_response = respond 200 [(''ok'', JBool True)]"

text \<open>\<open>await sendTelegramMessage(...); return res.status(200).json({ ok: true })\<close>.\<close>

definition reply_ok :: "world \<Rightarrow> string \<Rightarrow> int \<Rightarrow> string \<Rightarrow> http_response io" where
  "reply_ok w botToken chatId text =
     bind_io (sendTelegramMessage w botToken chatId text) (\<lambda>_. return_io ok_response)"

definition githubReady :: "env \<Rightarrow> bool" where
  "githubReady E \<longleftrightarrow>
     set_nonempty (GITHUB_TOKEN E) \<and> set_nonempty (GITHUB_OWNER E) \<and> set_nonempty (GITHUB_REPO E)"

definition config_missing_text :: string where
  "config_missing_text = ''Config mancante su Vercel: GITHUB_TOKEN/GITHUB_OWNER/GITHUB_REPO.''"

text \<open>\<open>String(userId || "")\<close>.\<close>

definition user_id_string :: "int option \<Rightarrow> string" where
  "user_id_string userId =
     (case userId of None \<Rightarrow> [] | Some u \<Rightarrow> if u = 0 then [] else String_int u)"

text \<open>The fields that every payload of the router starts with.\<close>

definition payload_head :: "string \<Rightarrow> (string \<times> json) list" where
  "payload_head command = [(''source'', JStr ''telegram''), (''command'', JStr command)]"

definition payload_ids :: "int \<Rightarrow> int option \<Rightarrow> (string \<times> json) list" where
  "payload_ids chatId userId =
     [(''chat_id'', JStr (String_int chatId)), (''user_id'', JStr (user_id_string userId))]"

definition router_call :: "env \<Rightarrow> json \<Rightarrow> fetch_call" where
  "router_call E pl =
     dispatch_call (GITHUB_TOKEN E) (GITHUB_OWNER E) (GITHUB_REPO E)
       (envOrDefault (GITHUB_EVENT_TYPE E) DEFAULT_DISPATCH_EVENT) pl"

definition router_dispatch :: "env \<Rightarrow> world \<Rightarrow> json \<Rightarrow> unit io" where
  "router_dispatch E w pl =
     dispatchToGitHub w (GITHUB_TOKEN E) (GITHUB_OWNER E) (GITHUB_REPO E)
       (envOrDefault (GITHUB_EVENT_TYPE E) DEFAULT_DISPATCH_EVENT) pl"

definition apostrophe :: string where
  "apostrophe = [char_of (39 :: nat)]"

text \<open>
  \<open>(variable?.value || envOrDefault(STRATEGY_PROFILE_VAR, "balanced")).toLowerCase()\<close>:
  a truthy value that is no string has no \<open>toLowerCase\<close>, and the call throws a
  TypeError (the message is the engine's).
\<close>

definition type_error_message :: string where
  "type_error_message = ''toLowerCase is not a function''"

definition current_profile :: "env \<Rightarrow> json \<Rightarrow> string + string" where
  "current_profile E variable =
     (case get_prop variable ''value'' of
        None \<Rightarrow> Inr (toLowerCase (envOrDefault (STRATEGY_PROFILE E) ''balanced''))
      | Some v \<Rightarrow>
          if \<not> truthy v then Inr (toLowerCase (envOrDefault (STRATEGY_PROFILE E) ''balanced''))
          else (case v of JStr s \<Rightarrow> Inr (toLowerCase s) | _ \<Rightarrow> Inl type_error_message))"

definition handle_profile ::
  "builtins \<Rightarrow> env \<Rightarrow> world \<Rightarrow> string \<Rightarrow> int \<Rightarrow> string \<Rightarrow> http_response io" where
  "handle_profile B E w botToken chatId args =
     (if \<not> githubReady E then reply_ok w botToken chatId config_missing_text
      else
        (case parseProfileArg args of
           ModeInvalid v \<Rightarrow>
             reply_ok w botToken chatId
               ''Valore non valido. Usa: /profile conservative | balanced | aggressive''
         | ModeShow \<Rightarrow>
             bind_io (getGitHubVariable B w (GITHUB_TOKEN E) (GITHUB_OWNER E) (GITHUB_REPO E)
                        STRATEGY_PROFILE_VAR)
               (\<lambda>variable.
                  case current_profile E variable of
                    Inl e \<Rightarrow> throw_io e
                  | Inr current \<Rightarrow>
                      reply_ok w botToken chatId
                        (''Profilo strategia attivo: '' @ current @ newline
                           @ ''Usa /profile conservative|balanced|aggressive''))
         | ModeSet v \<Rightarrow>
             bind_io (upsertGitHubVariable B w (GITHUB_TOKEN E) (GITHUB_OWNER E) (GITHUB_REPO E)
                        STRATEGY_PROFILE_VAR v)
               (\<lambda>_. reply_ok w botToken chatId
                  (''Profilo strategia aggiornato a '' @ apostrophe @ v @ apostrophe
                     @ ''. Sara applicato alle prossime run.''))))"

definition scan_payload :: "int \<Rightarrow> int option \<Rightarrow> json list option \<Rightarrow> json" where
  "scan_payload chatId userId products =
     JObj (payload_head ''scan'' @ payload_ids chatId userId
             @ (case products of Some ps \<Rightarrow> [(''products'', JArr ps)] | None \<Rightarrow> []))"

definition scan_dispatch ::
  "env \<Rightarrow> world \<Rightarrow> string \<Rightarrow> int \<Rightarrow> int option \<Rightarrow> json list option \<Rightarrow> http_response io" where
  "scan_dispatch E w botToken chatId userId products =
     bind_io (router_dispatch E w (scan_payload chatId userId products))
       (\<lambda>_. reply_ok w botToken chatId
          (case products of
             Some ps \<Rightarrow> ''Scan accodato su GitHub Actions ('' @ String_int (int (length ps))
                          @ '' prodotti).''
           | None \<Rightarrow> ''Scan accodato su GitHub Actions (modalita default: sorgenti prodotto configurate nel worker).''))"

definition handle_scan ::
  "builtins \<Rightarrow> env \<Rightarrow> world \<Rightarrow> string \<Rightarrow> int \<Rightarrow> int option \<Rightarrow> string \<Rightarrow> http_response io" where
  "handle_scan B E w botToken chatId userId args =
     (if \<not> githubReady E then reply_ok w botToken chatId config_missing_text
      else if args \<noteq> []
      then (case parseProductsArg B args of
              None \<Rightarrow> reply_ok w botToken chatId ''JSON non valido. Invia un oggetto o array JSON.''
            | Some products \<Rightarrow>
                if products = []
                then reply_ok w botToken chatId ''Payload vuoto: nessun prodotto valido.''
                else scan_dispatch E w botToken chatId userId (Some products))
      else scan_dispatch E w botToken chatId userId None)"

definition smoke_products :: "json list" where
  "smoke_products =
     [JObj [(''title'', JStr ''Apple iPhone 14 128GB''), (''price_eur'', JNum (Fin 650)),
            (''category'', JStr ''apple_phone'')],
      JObj [(''title'', JStr ''Apple Watch Ultra 2 GPS + Cellular 49mm''),
            (''price_eur'', JNum (Fin 750)), (''category'', JStr ''smartwatch'')],
      JObj [(''title'', JStr ''Valve Steam Deck OLED 1TB''), (''price_eur'', JNum (Fin 420)),
            (''category'', JStr ''handheld_console'')]]"

definition smoke_payload :: "int \<Rightarrow> int option \<Rightarrow> json" where
  "smoke_payload chatId userId =
     JObj (payload_head ''scan'' @ [(''mode'', JStr ''smoke'')] @ payload_ids chatId userId
             @ [(''products'', JArr smoke_products)])"

definition handle_smoke ::
  "env \<Rightarrow> world \<Rightarrow> string \<Rightarrow> int \<Rightarrow> int option \<Rightarrow> http_response io" where
  "handle_smoke E w botToken chatId userId =
     (if \<not> githubReady E then reply_ok w botToken chatId config_missing_text
      else
        bind_io (router_dispatch E w (smoke_payload chatId userId))
          (\<lambda>_. reply_ok w botToken chatId
             (''Smoke test accodato su GitHub Actions (''
                @ String_int (int (length smoke_products)) @ '' prodotti).'')))"

definition status_payload :: "int \<Rightarrow> int option \<Rightarrow> json" where
  "status_payload chatId userId = JObj (payload_head ''status'' @ payload_ids chatId userId)"

definition handle_status ::
  "env \<Rightarrow> world \<Rightarrow> string \<Rightarrow> int \<Rightarrow> int option \<Rightarrow> http_response io" where
  "handle_status E w botToken chatId userId =
     (if \<not> githubReady E then reply_ok w botToken chatId config_missing_text
      else
        bind_io (router_dispatch E w (status_payload chatId userId))
          (\<lambda>_. reply_ok w botToken chatId ''Richiesta status accodata su GitHub Actions.''))"

definition last_payload :: "int \<Rightarrow> int option \<Rightarrow> int \<Rightarrow> json" where
  "last_payload chatId userId limit =
     JObj (payload_head ''last'' @ payload_ids chatId userId @ [(''limit'', json_of_int limit)])"

definition handle_last ::
  "env \<Rightarrow> world \<Rightarrow> string \<Rightarrow> int \<Rightarrow> int option \<Rightarrow> string \<Rightarrow> http_response io" where
  "handle_last E w botToken chatId userId args =
     (if \<not> githubReady E then reply_ok w botToken chatId config_missing_text
      else
        let limit = last_limit args
        in bind_io (router_dispatch E w (last_payload chatId userId limit))
             (\<lambda>_. reply_ok w botToken chatId
                (''Richiesta ultime opportunita ('' @ String_int limit
                   @ '') accodata su GitHub Actions.'')))"

text \<open>
  \<open>commandToken.replace(/^\/([^@\s]+).*$/, "$1").toLowerCase()\<close>: when the token is a
  slash, a non-empty name without \<open>@\<close> or whitespace, and a rest on the same line, the
  name; otherwise the token itself.
\<close>

definition command_of :: "string \<Rightarrow> string" where
  "command_of commandToken =
     toLowerCase
       (case commandToken of
          [] \<Rightarrow> []
        | c # rest \<Rightarrow>
            let name = takeWhile (\<lambda>x. x \<noteq> CHR ''@'' \<and> \<not> js_space x) rest
            in if c = CHR ''/'' \<and> name \<noteq> []
                  \<and> list_all (\<lambda>x. \<not> line_terminator x) (drop (length name) rest)
               then name else commandToken)"

text \<open>The body of the \<open>try\<close> block of the handler: the selected command runs.\<close>

definition run_command ::
  "builtins \<Rightarrow> env \<Rightarrow> world \<Rightarrow> string \<Rightarrow> int \<Rightarrow> int option \<Rightarrow> string \<Rightarrow> string
     \<Rightarrow> http_response io" where
  "run_command B E w botToken chatId userId command args =
     (if command = ''start''
      then reply_ok w botToken chatId (''Bot operativo.'' @ newline @ commandHelpText)
      else if command = ''help'' then reply_ok w botToken chatId commandHelpText
      else if command = ''id''
      then reply_ok w botToken chatId (''chat_id: '' @ String_int chatId)
      else if command = ''rules'' then reply_ok w botToken chatId rulesText
      else if command = ''profile'' then handle_profile B E w botToken chatId args
      else if command = ''scan'' then handle_scan B E w botToken chatId userId args
      else if command = ''smoke'' then handle_smoke E w botToken chatId userId
      else if command = ''status'' then handle_status E w botToken chatId userId
      else if command = ''last'' then handle_last E w botToken chatId userId args
      else reply_ok w botToken chatId
             (''Comando non riconosciuto.'' @ newline @ commandHelpText))"

text \<open>What the handler reads from the body before the structural gate.\<close>

definition the_message :: "webhook_request \<Rightarrow> message option" where
  "the_message req =
     (case req_body req of
        None \<Rightarrow> None
      | Some u \<Rightarrow> (case upd_message u of Some m \<Rightarrow> Some m | None \<Rightarrow> upd_edited_message u))"

definition the_chat_id :: "webhook_request \<Rightarrow> int option" where
  "the_chat_id req = (case the_message req of None \<Rightarrow> None | Some m \<Rightarrow> msg_chat_id m)"

definition the_user_id :: "webhook_request \<Rightarrow> int option" where
  "the_user_id req = (case the_message req of None \<Rightarrow> None | Some m \<Rightarrow> msg_from_id m)"

definition the_text :: "webhook_request \<Rightarrow> string" where
  "the_text req =
     trim (case the_message req of
             None \<Rightarrow> []
           | Some m \<Rightarrow> (case msg_text m of None \<Rightarrow> [] | Some t \<Rightarrow> t))"

definition the_command :: "webhook_request \<Rightarrow> string" where
  "the_command req = command_of (first_token (the_text req))"

definition the_args :: "webhook_request \<Rightarrow> string" where
  "the_args req = trim (drop (length (first_token (the_text req))) (the_text req))"

text \<open>The reply after a caught error; its own failure is discarded.\<close>

definition error_reply :: "world \<Rightarrow> string \<Rightarrow> int \<Rightarrow> string \<Rightarrow> unit io" where
  "error_reply w botToken chatId details =
     swallow (sendTelegramMessage w botToken chatId (''Errore comando: '' @ details))"

text \<open>The handler: the response and the outbound calls, in order.\<close>

definition handler ::
  "builtins \<Rightarrow> env \<Rightarrow> world \<Rightarrow> webhook_request \<Rightarrow> http_response \<times> fetch_call list" where
  "handler B E w req =
     (if req_method req \<noteq> ''POST''
      then (respond 405 [(''ok'', JBool False), (''error'', JStr ''Method not allowed'')], [])
      else if set_nonempty (TELEGRAM_WEBHOOK_SECRET_TOKEN E)
              \<and> req_secret_token req \<noteq> TELEGRAM_WEBHOOK_SECRET_TOKEN E
      then (respond 401 [(''ok'', JBool False), (''error'', JStr ''Invalid webhook secret'')], [])
      else if \<not> set_nonempty (TELEGRAM_BOT_TOKEN E)
      then (respond 500 [(''ok'', JBool False), (''error'', JStr ''Missing env configuration'')], [])
      else
        let botToken = template (TELEGRAM_BOT_TOKEN E);
            text = the_text req
        in
          (case the_chat_id req of
             None \<Rightarrow> (respond 200 [(''ok'', JBool True), (''ignored'', JBool True)], [])
           | Some chatId \<Rightarrow>
               if chatId = 0 \<or> \<not> startsWith text ''/''
               then (respond 200 [(''ok'', JBool True), (''ignored'', JBool True)], [])
               else
                 let allowedChatIds = parseAllowedChatIds (TELEGRAM_ALLOWED_CHAT_IDS E)
                 in if allowedChatIds \<noteq> [] \<and> String_int chatId \<notin> set allowedChatIds
                    then
                      (respond 200 [(''ok'', JBool True), (''denied'', JBool True)],
                       snd (swallow (sendTelegramMessage w botToken chatId
                                       ''Chat non autorizzata.'') []))
                    else
                      (case run_command B E w botToken chatId (the_user_id req)
                              (the_command req) (the_args req) [] of
                         (Inr response, calls) \<Rightarrow> (response, calls)
                       | (Inl details, calls) \<Rightarrow>
                           (respond 200 [(''ok'', JBool False), (''error'', JStr details)],
                            snd (error_reply w botToken chatId details calls)))))"

section \<open>The gates, as predicates on a request\<close>

text \<open>
  The request gets to the structural gate: it is a POST, its secret header is the
  configured secret when one is configured, and the bot credential is configured.
\<close>

definition passes_authentication :: "env \<Rightarrow> webhook_request \<Rightarrow> bool" where
  "passes_authentication E req \<longleftrightarrow>
     req_method req = ''POST''
     \<and> (\<not> set_nonempty (TELEGRAM_WEBHOOK_SECRET_TOKEN E)
          \<or> req_secret_token req = TELEGRAM_WEBHOOK_SECRET_TOKEN E)
     \<and> set_nonempty (TELEGRAM_BOT_TOKEN E)"

text \<open>The Update has a chat identifier (not zero) and its trimmed text is a command.\<close>

definition passes_structural :: "webhook_request \<Rightarrow> bool" where
  "passes_structural req \<longleftrightarrow>
     (case the_chat_id req of None \<Rightarrow> False | Some c \<Rightarrow> c \<noteq> 0)
     \<and> startsWith (the_text req) ''/''"

definition chat_allowed :: "env \<Rightarrow> int \<Rightarrow> bool" where
  "chat_allowed E chatId \<longleftrightarrow>
     parseAllowedChatIds (TELEGRAM_ALLOWED_CHAT_IDS E) = []
     \<or> String_int chatId \<in> set (parseAllowedChatIds (TELEGRAM_ALLOWED_CHAT_IDS E))"

text \<open>The conditions that the trigger endpoint checks on the secret and the header.\<close>

definition secret_configured :: "env \<Rightarrow> bool" where
  "secret_configured E \<longleftrightarrow>
     (case SCAN_SECRET E of None \<Rightarrow> False | Some s \<Rightarrow> s \<noteq> [] \<and> trim s \<noteq> [])"

definition bearer_matches :: "env \<Rightarrow> scan_request \<Rightarrow> bool" where
  "bearer_matches E req \<longleftrightarrow>
     (case SCAN_SECRET E of
        None \<Rightarrow> False
      | Some s \<Rightarrow> (case scan_authorization req of None \<Rightarrow> [] | Some h \<Rightarrow> h)
                    = ''Bearer '' @ trim s)"

text \<open>The payload of the dispatch event that a call carries, if it is one.\<close>

definition client_payload :: "fetch_call \<Rightarrow> json option" where
  "client_payload c =
     (case payload c of None \<Rightarrow> None | Some j \<Rightarrow> get_prop j ''client_payload'')"

text \<open>
  The fields that a dispatch event of the router carries for a chat and a sender; a call
  that is no dispatch event satisfies the predicate.
\<close>

definition router_payload_ok :: "int \<Rightarrow> int option \<Rightarrow> fetch_call \<Rightarrow> bool" where
  "router_payload_ok chatId userId c \<longleftrightarrow>
     (case client_payload c of
        None \<Rightarrow> True
      | Some cp \<Rightarrow>
          get_prop cp ''source'' = Some (JStr ''telegram'')
          \<and> (case get_prop cp ''command'' of Some (JStr _) \<Rightarrow> True | _ \<Rightarrow> False)
          \<and> get_prop cp ''chat_id'' = Some (JStr (String_int chatId))
          \<and> get_prop cp ''user_id'' = Some (JStr (user_id_string userId)))"

text \<open>The payloads of the dispatch events among the calls, in order.\<close>

definition dispatch_events :: "fetch_call list \<Rightarrow> json list" where
  "dispatch_events calls = List.map_filter client_payload calls"

text \<open>Every call that a computation adds to the trace satisfies \<open>P\<close>.\<close>

definition adds_only :: "(fetch_call \<Rightarrow> bool) \<Rightarrow> 'a io \<Rightarrow> bool" where
  "adds_only P m \<longleftrightarrow> (\<forall>tr. \<exists>new. snd (m tr) = tr @ new \<and> list_all P new)"

text \<open>Every value that a computation returns without throwing satisfies \<open>Q\<close>.\<close>

definition yields_only :: "('a \<Rightarrow> bool) \<Rightarrow> 'a io \<Rightarrow> bool" where
  "yields_only Q m \<longleftrightarrow> (\<forall>tr r. fst (m tr) = Inr r \<longrightarrow> Q r)"

section \<open>Concrete inputs\<close>

text \<open>
  The configuration of the test suite, worlds where every call gets the same response,
  and a stand-in for the built-ins that parses the one JSON text the examples use.
\<close>

definition test_builtins :: builtins where
  "test_builtins = \<lparr> JSON_parse = (\<lambda>s. if s = ''{}'' then Some (JObj []) else None),
                      to_number = (\<lambda>v. NaN), encodeURIComponent = (\<lambda>s. s) \<rparr>"

definition test_env :: env where
  "test_env = \<lparr> TELEGRAM_WEBHOOK_SECRET_TOKEN = Some ''webhook_secret'',
                 TELEGRAM_BOT_TOKEN = Some ''token'',
                 TELEGRAM_ALLOWED_CHAT_IDS = Some [],
                 GITHUB_TOKEN = Some ''ghp_test'',
                 GITHUB_OWNER = Some ''owner'',
                 GITHUB_REPO = Some ''repo'',
                 GITHUB_EVENT_TYPE = Some ''scan'',
                 STRATEGY_PROFILE = None,
                 SCAN_SECRET = Some ''scan_secret'' \<rparr>"

definition world_ok :: world where
  "world_ok = (\<lambda>k. Response 200 [])"

definition world_down :: world where
  "world_down = (\<lambda>k. Response 500 ''down'')"

text \<open>The variable does not exist yet: the update is answered 404, the creation 201.\<close>

text \<open>
  A store of variables for the examples: an update of a missing variable is answered
  404, a creation of an existing one 409, and both write otherwise.
\<close>

definition example_store ::
  "(string \<times> string) list \<Rightarrow> fetch_call \<Rightarrow> fetch_result \<times> (string \<times> string) list" where
  "example_store st c =
     (case payload c of
        Some (JObj [(n_key, JStr n), (v_key, JStr v)]) \<Rightarrow>
          if http_method c = ''PATCH''
          then (if map_of st n = None then (Response 404 ''Not Found'', st)
                else (Response 204 [], AList.update n v st))
          else if http_method c = ''POST''
          then (if map_of st n = None then (Response 201 [], AList.update n v st)
                else (Response 409 ''Conflict'', st))
          else (Response 405 [], st)
      | _ \<Rightarrow> (Response 400 [], st))"

definition example_holds :: "(string \<times> string) list \<Rightarrow> string \<Rightarrow> string \<Rightarrow> bool" where
  "example_holds st n v \<longleftrightarrow> map_of st n = Some v"

definition world_absent :: world where
  "world_absent = (\<lambda>k. if k = 0 then Response 404 ''Not Found'' else Response 201 [])"

definition scan_req :: "string \<Rightarrow> string option \<Rightarrow> json list \<Rightarrow> scan_request" where
  "scan_req m h ps = \<lparr> scan_method = m, scan_authorization = h,
                        scan_body = Some (JObj [(''products'', JArr ps)]) \<rparr>"

definition iphone :: json where
  "iphone = JObj [(''title'', JStr '' iPhone 14 ''), (''price'', JNum (Fin 500)),
                  (''category'', JStr ''apple_phone'')]"

definition chat_req :: "string \<Rightarrow> string option \<Rightarrow> int option \<Rightarrow> int option \<Rightarrow> string
    \<Rightarrow> webhook_request" where
  "chat_req m h chat sender t =
     \<lparr> req_method = m, req_secret_token = h,
       req_body = Some \<lparr> upd_message = Some \<lparr> msg_chat_id = chat, msg_from_id = sender,
                                                msg_text = Some t \<rparr>,
                         upd_edited_message = None \<rparr> \<rparr>"

section \<open>Properties of the clients and of the traces\<close>

subsection \<open>Traces\<close>

lemma fetch_trace: "snd (fetch w c tr) = tr @ [c]"
  by (simp add: fetch_def split: fetch_result.splits)

lemma sendTelegramMessage_trace:
  "snd (sendTelegramMessage w botToken chatId text tr) = tr @ [reply_call botToken chatId text]"
  by (simp add: sendTelegramMessage_def bind_io_def fetch_def throw_io_def return_io_def
           split: fetch_result.splits)

lemma reply_ok_trace:
  "snd (reply_ok w botToken chatId text tr) = tr @ [reply_call botToken chatId text]"
  by (simp add: reply_ok_def sendTelegramMessage_def bind_io_def fetch_def throw_io_def
                return_io_def split: fetch_result.splits)

lemma reply_ok_value:
  "fst (reply_ok w botToken chatId text tr) = Inr r \<Longrightarrow> r = ok_response"
  by (simp add: reply_ok_def sendTelegramMessage_def bind_io_def fetch_def throw_io_def
                return_io_def split: fetch_result.splits if_splits)

lemma swallow_trace: "snd (swallow m tr) = snd (m tr)"
  by (simp add: swallow_def split: prod.splits)

lemma error_reply_trace:
  "snd (error_reply w botToken chatId details tr)
     = tr @ [reply_call botToken chatId (''Errore comando: '' @ details)]"
  by (simp add: error_reply_def swallow_trace sendTelegramMessage_trace)

lemma router_dispatch_trace: "snd (router_dispatch E w pl tr) = tr @ [router_call E pl]"
  by (simp add: router_dispatch_def router_call_def dispatchToGitHub_def bind_io_def fetch_def
                throw_io_def return_io_def split: fetch_result.splits)

subsection \<open>Invariants of the calls added\<close>

lemma adds_only_return: "adds_only P (return_io x)"
  by (simp add: adds_only_def return_io_def)

lemma adds_only_throw: "adds_only P (throw_io e)"
  by (simp add: adds_only_def throw_io_def)

lemma adds_only_fetch: "P c \<Longrightarrow> adds_only P (fetch w c)"
  by (simp add: adds_only_def fetch_trace)

lemma bind_io_Inl: "m tr = (Inl e, tr') \<Longrightarrow> bind_io m f tr = (Inl e, tr')"
  by (simp add: bind_io_def)

lemma bind_io_Inr: "m tr = (Inr x, tr') \<Longrightarrow> bind_io m f tr = f x tr'"
  by (simp add: bind_io_def)

lemma adds_only_bind:
  assumes "adds_only P m" and "\<And>x. adds_only P (f x)"
  shows "adds_only P (bind_io m f)"
  unfolding adds_only_def
proof
  fix tr
  obtain r tr' where mtr: "m tr = (r, tr')" by (cases "m tr")
  from assms(1) mtr obtain n1 where n1: "tr' = tr @ n1" "list_all P n1"
    unfolding adds_only_def by (metis snd_conv)
  show "\<exists>new. snd (bind_io m f tr) = tr @ new \<and> list_all P new"
  proof (cases r)
    case (Inl e)
    with mtr have "snd (bind_io m f tr) = tr'" by (simp add: bind_io_Inl)
    with n1 show ?thesis by blast
  next
    case (Inr x)
    with mtr have eq: "bind_io m f tr = f x tr'" by (simp add: bind_io_Inr)
    from assms(2) [of x] obtain n2 where "snd (f x tr') = tr' @ n2" "list_all P n2"
      unfolding adds_only_def by blast
    with eq n1 have "snd (bind_io m f tr) = tr @ (n1 @ n2) \<and> list_all P (n1 @ n2)" by simp
    then show ?thesis by blast
  qed
qed

lemma adds_only_swallow: "adds_only P m \<Longrightarrow> adds_only P (swallow m)"
  unfolding adds_only_def swallow_def
  by (auto split: prod.splits) (metis snd_conv)

lemma adds_only_send:
  "P (reply_call botToken chatId text) \<Longrightarrow> adds_only P (sendTelegramMessage w botToken chatId text)"
  unfolding sendTelegramMessage_def
  by (intro adds_only_bind adds_only_fetch) (auto simp: adds_only_return adds_only_throw)

lemma adds_only_reply_ok:
  "P (reply_call botToken chatId text) \<Longrightarrow> adds_only P (reply_ok w botToken chatId text)"
  unfolding reply_ok_def
  by (intro adds_only_bind adds_only_send) (auto simp: adds_only_return)

lemma adds_only_api:
  "P (api_call githubToken method path body) \<Longrightarrow>
   adds_only P (githubApiRequest B w githubToken method path body)"
  unfolding githubApiRequest_def
  by (intro adds_only_bind adds_only_fetch) (auto simp: adds_only_return)

lemma adds_only_get:
  "(\<And>m p. P (api_call githubToken m p None)) \<Longrightarrow>
   adds_only P (getGitHubVariable B w githubToken owner repo name)"
  unfolding getGitHubVariable_def
  by (intro adds_only_bind adds_only_api) (auto simp: adds_only_return adds_only_throw)

lemma adds_only_upsert:
  "(\<And>m p. P (api_call githubToken m p (Some (variable_body name v)))) \<Longrightarrow>
   adds_only P (upsertGitHubVariable B w githubToken owner repo name v)"
  unfolding upsertGitHubVariable_def
  by (intro adds_only_bind adds_only_api)
     (auto simp: adds_only_return adds_only_throw intro!: adds_only_bind adds_only_api)

lemma adds_only_dispatch:
  "P (router_call E pl) \<Longrightarrow> adds_only P (router_dispatch E w pl)"
  unfolding router_dispatch_def dispatchToGitHub_def router_call_def
  by (intro adds_only_bind adds_only_fetch) (auto simp: adds_only_return adds_only_throw)

lemma adds_only_profile:
  assumes "\<And>t. P (reply_call botToken chatId t)"
    and "\<And>m p. P (api_call (GITHUB_TOKEN E) m p None)"
    and "\<And>m p n v. P (api_call (GITHUB_TOKEN E) m p (Some (variable_body n v)))"
  shows "adds_only P (handle_profile B E w botToken chatId args)"
  unfolding handle_profile_def
  by (auto intro!: adds_only_bind adds_only_reply_ok adds_only_get adds_only_upsert
           simp: assms adds_only_throw split: profile_arg.splits sum.splits)

lemma adds_only_scan:
  assumes "\<And>t. P (reply_call botToken chatId t)"
    and "\<And>ps. P (router_call E (scan_payload chatId userId ps))"
  shows "adds_only P (handle_scan B E w botToken chatId userId args)"
  unfolding handle_scan_def scan_dispatch_def
  by (auto intro!: adds_only_bind adds_only_reply_ok adds_only_dispatch
           simp: assms split: option.splits)

lemma adds_only_smoke:
  assumes "\<And>t. P (reply_call botToken chatId t)"
    and "P (router_call E (smoke_payload chatId userId))"
  shows "adds_only P (handle_smoke E w botToken chatId userId)"
  unfolding handle_smoke_def
  by (auto intro!: adds_only_bind adds_only_reply_ok adds_only_dispatch simp: assms)

lemma adds_only_status:
  assumes "\<And>t. P (reply_call botToken chatId t)"
    and "P (router_call E (status_payload chatId userId))"
  shows "adds_only P (handle_status E w botToken chatId userId)"
  unfolding handle_status_def
  by (auto intro!: adds_only_bind adds_only_reply_ok adds_only_dispatch simp: assms)

lemma adds_only_last:
  assumes "\<And>t. P (reply_call botToken chatId t)"
    and "\<And>l. P (router_call E (last_payload chatId userId l))"
  shows "adds_only P (handle_last E w botToken chatId userId args)"
  unfolding handle_last_def Let_def
  by (auto intro!: adds_only_bind adds_only_reply_ok adds_only_dispatch simp: assms)

lemma adds_only_run_command:
  assumes "\<And>t. P (reply_call botToken chatId t)"
    and "\<And>m p. P (api_call (GITHUB_TOKEN E) m p None)"
    and "\<And>m p n v. P (api_call (GITHUB_TOKEN E) m p (Some (variable_body n v)))"
    and "\<And>ps. P (router_call E (scan_payload chatId userId ps))"
    and "P (router_call E (smoke_payload chatId userId))"
    and "P (router_call E (status_payload chatId userId))"
    and "\<And>l. P (router_call E (last_payload chatId userId l))"
  shows "adds_only P (run_command B E w botToken chatId userId command args)"
  unfolding run_command_def
  by (simp add: assms adds_only_reply_ok adds_only_profile adds_only_scan adds_only_smoke
                adds_only_status adds_only_last)

lemma handler_calls:
  assumes "\<And>chatId t. the_chat_id req = Some chatId \<Longrightarrow>
              P (reply_call (template (TELEGRAM_BOT_TOKEN E)) chatId t)"
    and "\<And>m p. P (api_call (GITHUB_TOKEN E) m p None)"
    and "\<And>m p n v. P (api_call (GITHUB_TOKEN E) m p (Some (variable_body n v)))"
    and "\<And>chatId ps. the_chat_id req = Some chatId \<Longrightarrow>
              P (router_call E (scan_payload chatId (the_user_id req) ps))"
    and "\<And>chatId. the_chat_id req = Some chatId \<Longrightarrow>
              P (router_call E (smoke_payload chatId (the_user_id req)))"
    and "\<And>chatId. the_chat_id req = Some chatId \<Longrightarrow>
              P (router_call E (status_payload chatId (the_user_id req)))"
    and "\<And>chatId l. the_chat_id req = Some chatId \<Longrightarrow>
              P (router_call E (last_payload chatId (the_user_id req) l))"
  shows "list_all P (snd (handler B E w req))"
proof (cases "the_chat_id req")
  case None
  then show ?thesis by (simp add: handler_def Let_def)
next
  case (Some chatId)
  let ?bt = "template (TELEGRAM_BOT_TOKEN E)"
  let ?run = "run_command B E w ?bt chatId (the_user_id req) (the_command req) (the_args req)"
  have run: "adds_only P ?run"
    by (rule adds_only_run_command) (simp_all add: assms Some)
  obtain r calls where rc: "?run [] = (r, calls)" by (cases "?run []")
  with run have calls: "list_all P calls"
    unfolding adds_only_def by (metis append_Nil snd_conv)
  have reply: "\<And>t. P (reply_call ?bt chatId t)" by (simp add: assms Some)
  show ?thesis
    using Some rc calls reply
    by (cases r)
       (simp_all add: handler_def Let_def swallow_trace sendTelegramMessage_trace
          error_reply_trace)
qed

subsection \<open>What a command returns\<close>

lemma yields_only_throw: "yields_only Q (throw_io e)"
  by (simp add: yields_only_def throw_io_def)

lemma yields_only_bind:
  assumes "\<And>x. yields_only Q (f x)"
  shows "yields_only Q (bind_io m f)"
  unfolding yields_only_def
proof (intro allI impI)
  fix tr r
  assume a: "fst (bind_io m f tr) = Inr r"
  obtain v tr' where mtr: "m tr = (v, tr')" by (cases "m tr")
  show "Q r"
  proof (cases v)
    case (Inl e)
    with mtr a show ?thesis by (simp add: bind_io_Inl)
  next
    case (Inr x)
    with mtr a have "fst (f x tr') = Inr r" by (simp add: bind_io_Inr)
    with assms [of x] show ?thesis unfolding yields_only_def by blast
  qed
qed

lemma yields_only_reply_ok: "yields_only (\<lambda>r. r = ok_response) (reply_ok w botToken chatId text)"
  unfolding yields_only_def using reply_ok_value by blast

lemma yields_only_profile:
  "yields_only (\<lambda>r. r = ok_response) (handle_profile B E w botToken chatId args)"
proof (cases "parseProfileArg args")
  case ModeShow
  have "yields_only (\<lambda>r. r = ok_response)
          (case current_profile E variable of
             Inl e \<Rightarrow> throw_io e
           | Inr current \<Rightarrow> reply_ok w botToken chatId (f current))" for variable f
    by (cases "current_profile E variable") (simp_all add: yields_only_throw yields_only_reply_ok)
  with ModeShow show ?thesis
    by (simp add: handle_profile_def yields_only_reply_ok yields_only_bind)
next
  case (ModeInvalid v)
  then show ?thesis by (simp add: handle_profile_def yields_only_reply_ok)
next
  case (ModeSet v)
  then show ?thesis by (simp add: handle_profile_def yields_only_reply_ok yields_only_bind)
qed

lemma yields_only_scan:
  "yields_only (\<lambda>r. r = ok_response) (handle_scan B E w botToken chatId userId args)"
  by (simp add: handle_scan_def scan_dispatch_def yields_only_reply_ok yields_only_bind
           split: option.split)

lemma yields_only_run_command:
  "yields_only (\<lambda>r. r = ok_response) (run_command B E w botToken chatId userId command args)"
  by (simp add: run_command_def yields_only_profile yields_only_scan handle_smoke_def
        handle_status_def handle_last_def Let_def yields_only_reply_ok yields_only_bind)


lemma run_command_allowlist:
  "run_command B (E\<lparr>TELEGRAM_ALLOWED_CHAT_IDS := a\<rparr>) w botToken chatId userId command args
     = run_command B E w botToken chatId userId command args"
proof -
  let ?E = "E\<lparr>TELEGRAM_ALLOWED_CHAT_IDS := a\<rparr>"
  have rd: "router_dispatch ?E = router_dispatch E"
    by (simp add: router_dispatch_def fun_eq_iff)
  have gr: "githubReady ?E = githubReady E"
    by (simp add: githubReady_def)
  have cp: "current_profile ?E = current_profile E"
    by (simp add: current_profile_def fun_eq_iff split: option.split)
  have "handle_profile B ?E w botToken chatId args = handle_profile B E w botToken chatId args"
    by (simp add: handle_profile_def gr cp split: profile_arg.split)
  moreover have "handle_scan B ?E w botToken chatId userId args
                   = handle_scan B E w botToken chatId userId args"
    by (simp add: handle_scan_def scan_dispatch_def gr rd split: option.split)
  moreover have "handle_smoke ?E w botToken chatId userId = handle_smoke E w botToken chatId userId"
    by (simp add: handle_smoke_def gr rd)
  moreover have "handle_status ?E w botToken chatId userId
                   = handle_status E w botToken chatId userId"
    by (simp add: handle_status_def gr rd)
  moreover have "handle_last ?E w botToken chatId userId args
                   = handle_last E w botToken chatId userId args"
    by (simp add: handle_last_def gr rd)
  ultimately show ?thesis by (simp add: run_command_def)
qed

lemma handler_after_gates:
  assumes "passes_authentication E req" "passes_structural req" "the_chat_id req = Some chatId"
    and "chat_allowed E chatId"
  shows "handler B E w req =
     (case run_command B E w (template (TELEGRAM_BOT_TOKEN E)) chatId (the_user_id req)
             (the_command req) (the_args req) [] of
        (Inr response, calls) \<Rightarrow> (response, calls)
      | (Inl details, calls) \<Rightarrow>
          (respond 200 [(''ok'', JBool False), (''error'', JStr details)],
           calls @ [reply_call (template (TELEGRAM_BOT_TOKEN E)) chatId
                      (''Errore comando: '' @ details)]))"
  using assms
  by (auto simp: handler_def passes_authentication_def passes_structural_def chat_allowed_def
        Let_def error_reply_trace split: prod.splits sum.splits)

subsection \<open>Dispatch events in a trace\<close>

lemma client_payload_reply [simp]: "client_payload (reply_call botToken chatId text) = None"
  by (simp add: client_payload_def reply_call_def)

lemma client_payload_router [simp]: "client_payload (router_call E pl) = Some pl"
  by (simp add: client_payload_def router_call_def dispatch_call_def)

lemma client_payload_api_none [simp]: "client_payload (api_call tok m p None) = None"
  by (simp add: client_payload_def api_call_def)

lemma client_payload_api_body [simp]:
  "client_payload (api_call tok m p (Some (variable_body n v))) = None"
  by (simp add: client_payload_def api_call_def variable_body_def)

lemma dispatch_events_simps [simp]:
  "dispatch_events [] = []"
  "dispatch_events (xs @ ys) = dispatch_events xs @ dispatch_events ys"
  "dispatch_events (c # cs) = (case client_payload c of None \<Rightarrow> dispatch_events cs
                                | Some pl \<Rightarrow> pl # dispatch_events cs)"
  by (simp_all add: dispatch_events_def List.map_filter_def split: option.splits)

lemma events_reply_ok: "dispatch_events (snd (reply_ok w botToken chatId text tr)) = dispatch_events tr"
  by (simp add: reply_ok_trace)

lemma events_dispatch_reply:
  "dispatch_events (snd (bind_io (router_dispatch E w pl) (\<lambda>_. reply_ok w botToken chatId text) tr))
     = dispatch_events tr @ [pl]"
proof -
  obtain v tr' where m: "router_dispatch E w pl tr = (v, tr')"
    by (cases "router_dispatch E w pl tr")
  then have tr': "tr' = tr @ [router_call E pl]"
    using router_dispatch_trace [of E w pl tr] by simp
  show ?thesis
  proof (cases v)
    case (Inl e)
    with m tr' show ?thesis by (simp add: bind_io_Inl)
  next
    case (Inr x)
    with m tr' show ?thesis by (simp add: bind_io_Inr reply_ok_trace)
  qed
qed

lemma events_handler:
  assumes "passes_authentication E req" "passes_structural req" "the_chat_id req = Some chatId"
    and "chat_allowed E chatId"
  shows "dispatch_events (snd (handler B E w req))
     = dispatch_events (snd (run_command B E w (template (TELEGRAM_BOT_TOKEN E)) chatId
           (the_user_id req) (the_command req) (the_args req) []))"
  by (simp add: handler_after_gates [OF assms] split: prod.split sum.split)

lemma first_call_handler:
  assumes "passes_authentication E req" "passes_structural req" "the_chat_id req = Some chatId"
    and "chat_allowed E chatId"
  shows "\<exists>rest. snd (handler B E w req)
     = snd (run_command B E w (template (TELEGRAM_BOT_TOKEN E)) chatId
           (the_user_id req) (the_command req) (the_args req) []) @ rest"
  by (simp add: handler_after_gates [OF assms] split: prod.split sum.split)

subsection \<open>Decimal numerals\<close>

lemma of_char_digit: "d < 10 \<Longrightarrow> (of_char (char_of (48 + d :: nat)) :: nat) = 48 + d"
  by (simp add: of_char_of)

lemma decimal_digit_char: "d < 10 \<Longrightarrow> decimal_digit (char_of (48 + d :: nat))"
  by (simp add: decimal_digit_def of_char_digit)

lemma digit_not_space: "decimal_digit c \<Longrightarrow> \<not> js_space c"
  by (auto simp: decimal_digit_def js_space_def Let_def)

lemma string_of_nat_digits: "list_all decimal_digit (string_of_nat n)"
proof (induction n rule: string_of_nat.induct)
  case (1 n)
  show ?case
  proof (cases "n < 10")
    case True
    then show ?thesis by (subst string_of_nat.simps) (simp add: decimal_digit_char)
  next
    case False
    with 1 show ?thesis
      by (subst string_of_nat.simps) (simp add: decimal_digit_char)
  qed
qed

lemma string_of_nat_nonempty: "string_of_nat n \<noteq> []"
  by (subst string_of_nat.simps) simp

lemma digits_value_snoc:
  "digits_value (ds @ [c]) = 10 * digits_value ds + (of_char c - 48)"
  by (simp add: digits_value_def)

lemma digits_value_string_of_nat: "digits_value (string_of_nat n) = int n"
proof (induction n rule: string_of_nat.induct)
  case (1 n)
  show ?case
  proof (cases "n < 10")
    case True
    have "(of_char (char_of (48 + n)) :: int) = int (of_char (char_of (48 + n)))"
      by (rule of_nat_of_char [symmetric])
    also have "\<dots> = int (48 + n)" using True by (simp only: of_char_digit)
    finally have "(of_char (char_of (48 + n)) :: int) = 48 + int n" by simp
    with True show ?thesis
      by (subst string_of_nat.simps) (simp add: digits_value_def)
  next
    case False
    have "(of_char (char_of (48 + n mod 10)) :: int) = int (of_char (char_of (48 + n mod 10)))"
      by (rule of_nat_of_char [symmetric])
    also have "\<dots> = int (48 + n mod 10)" by (simp only: of_char_digit)
    finally have "(of_char (char_of (48 + n mod 10)) :: int) = 48 + int (n mod 10)" by simp
    with False 1 show ?thesis
      by (subst string_of_nat.simps) (simp add: digits_value_snoc zmod_int zdiv_int)
  qed
qed

lemma takeWhile_all: "list_all P xs \<Longrightarrow> takeWhile P xs = xs"
  by (induction xs) auto

lemma parseInt10_digits:
  assumes "list_all decimal_digit ds" "ds \<noteq> []" "digits_value ds < DOUBLE_OVERFLOW"
  shows "parseInt10 ds = ParsedInt (digits_value ds)"
    and "parseInt10 (CHR ''-'' # ds) = ParsedInt (- digits_value ds)"
proof -
  from assms(1,2) obtain c cs where ds: "ds = c # cs" "decimal_digit c"
    by (cases ds) auto
  then have ns: "\<not> js_space c" by (simp add: digit_not_space)
  from ds have nsign: "c \<noteq> CHR ''-''" "c \<noteq> CHR ''+''"
    by (auto simp: decimal_digit_def)
  from assms(1) have tw: "takeWhile decimal_digit ds = ds" by (rule takeWhile_all)
  have dw: "dropWhile js_space ds = ds" using ds ns by simp
  have t1: "take (Suc 0) ds \<noteq> ''-''" "take (Suc 0) ds \<noteq> ''+''" using ds nsign by simp_all
  from assms(2,3) show "parseInt10 ds = ParsedInt (digits_value ds)"
    by (simp add: parseInt10_def Let_def dw t1 tw)
  have nsp: "\<not> js_space CHR ''-''" by (simp add: js_space_def)
  from assms(2,3) show "parseInt10 (CHR ''-'' # ds) = ParsedInt (- digits_value ds)"
    by (simp add: parseInt10_def Let_def nsp tw)
qed

lemma parseInt10_String_int:
  assumes "\<bar>i\<bar> < DOUBLE_OVERFLOW"
  shows "parseInt10 (String_int i) = ParsedInt i"
proof (cases "i < 0")
  case True
  with assms have "digits_value (string_of_nat (nat (- i))) < DOUBLE_OVERFLOW"
    by (simp add: digits_value_string_of_nat)
  from parseInt10_digits(2) [OF string_of_nat_digits string_of_nat_nonempty this] True
  show ?thesis by (simp add: String_int_def digits_value_string_of_nat)
next
  case False
  with assms have "digits_value (string_of_nat (nat i)) < DOUBLE_OVERFLOW"
    by (simp add: digits_value_string_of_nat)
  from parseInt10_digits(1) [OF string_of_nat_digits string_of_nat_nonempty this] False
  show ?thesis by (simp add: String_int_def digits_value_string_of_nat)
qed

lemma last_limit_range: "1 \<le> last_limit args \<and> last_limit args \<le> 10"
  by (simp add: last_limit_def MAX_LAST_LIMIT_def split: parsed_int.split)

lemma last_limit_numeral:
  assumes "\<bar>i\<bar> < DOUBLE_OVERFLOW"
  shows "last_limit (String_int i) = max 1 (min i 10)"
proof -
  have "String_int i \<noteq> []"
    by (simp add: String_int_def string_of_nat_nonempty)
  with parseInt10_String_int [OF assms] show ?thesis
    by (simp add: last_limit_def MAX_LAST_LIMIT_def)
qed

lemma router_payload_ok_scan: "router_payload_ok chatId userId (router_call E (scan_payload chatId userId ps))"
  by (simp add: router_payload_ok_def scan_payload_def payload_head_def payload_ids_def)

lemma router_payload_ok_smoke: "router_payload_ok chatId userId (router_call E (smoke_payload chatId userId))"
  by (simp add: router_payload_ok_def smoke_payload_def payload_head_def payload_ids_def)

lemma router_payload_ok_status: "router_payload_ok chatId userId (router_call E (status_payload chatId userId))"
  by (simp add: router_payload_ok_def status_payload_def payload_head_def payload_ids_def)

lemma router_payload_ok_last: "router_payload_ok chatId userId (router_call E (last_payload chatId userId l))"
  by (simp add: router_payload_ok_def last_payload_def payload_head_def payload_ids_def)

lemma router_payload_ok_other:
  "router_payload_ok chatId userId (reply_call botToken c t)"
  "router_payload_ok chatId userId (api_call tok m p None)"
  "router_payload_ok chatId userId (api_call tok m p (Some (variable_body n v)))"
  by (simp_all add: router_payload_ok_def)

lemma dispatch_payload_fields:
  assumes "c \<in> set (snd (handler B E w req))" and "client_payload c = Some cp"
  shows "\<exists>chatId. the_chat_id req = Some chatId
     \<and> get_prop cp ''source'' = Some (JStr ''telegram'')
     \<and> (\<exists>command. get_prop cp ''command'' = Some (JStr command))
     \<and> get_prop cp ''chat_id'' = Some (JStr (String_int chatId))
     \<and> get_prop cp ''user_id'' = Some (JStr (user_id_string (the_user_id req)))"
proof (cases "the_chat_id req")
  case None
  then have "snd (handler B E w req) = []" by (simp add: handler_def Let_def)
  with assms(1) show ?thesis by simp
next
  case (Some chatId)
  have "list_all (router_payload_ok chatId (the_user_id req)) (snd (handler B E w req))"
    by (rule handler_calls)
       (simp_all add: Some router_payload_ok_other router_payload_ok_scan
          router_payload_ok_smoke router_payload_ok_status router_payload_ok_last)
  with assms(1) have "router_payload_ok chatId (the_user_id req) c"
    by (simp add: list_all_iff)
  with assms(2) have ok: "get_prop cp ''source'' = Some (JStr ''telegram'')"
      "case get_prop cp ''command'' of Some (JStr _) \<Rightarrow> True | _ \<Rightarrow> False"
      "get_prop cp ''chat_id'' = Some (JStr (String_int chatId))"
      "get_prop cp ''user_id'' = Some (JStr (user_id_string (the_user_id req)))"
    by (simp_all add: router_payload_ok_def)
  from ok(2) have cmd: "\<exists>command. get_prop cp ''command'' = Some (JStr command)"
    by (cases "get_prop cp ''command''"; simp split: json.splits)
  show ?thesis
    by (rule exI [of _ chatId]) (intro conjI; fact)
qed

lemma dispatch_without_sender:
  assumes "passes_authentication E req" and "passes_structural req"
    and "the_chat_id req = Some chatId" and "chat_allowed E chatId" and "githubReady E"
    and "the_command req = ''smoke'' \<or> the_command req = ''status''
         \<or> the_command req = ''last'' \<or> (the_command req = ''scan'' \<and> the_args req = [])"
  shows "\<exists>pl. dispatch_events (snd (handler B E w req)) = [pl]"
  using assms(5,6)
  by (auto simp: events_handler [OF assms(1-4)] run_command_def handle_smoke_def
        handle_status_def handle_last_def handle_scan_def scan_dispatch_def Let_def
        events_dispatch_reply)

subsection \<open>The variable store\<close>

lemma upsert_result:
  "upsertGitHubVariable B w tok owner repo name v tr =
     (case w (length tr) of
        NetworkError e \<Rightarrow> (Inl e, tr @ [update_call B tok owner repo name v])
      | Response s t \<Rightarrow>
          if status_ok s then (Inr (), tr @ [update_call B tok owner repo name v])
          else if s \<noteq> 404
          then (Inl (''GitHub variable update failed: '' @ String_int s @ '' '' @ t),
                tr @ [update_call B tok owner repo name v])
          else
            (case w (Suc (length tr)) of
               NetworkError e \<Rightarrow>
                 (Inl e, tr @ [update_call B tok owner repo name v,
                               create_call tok owner repo name v])
             | Response s' t' \<Rightarrow>
                 if \<not> status_ok s'
                 then (Inl (''GitHub variable create failed: '' @ String_int s' @ '' '' @ t'),
                       tr @ [update_call B tok owner repo name v,
                             create_call tok owner repo name v])
                 else (Inr (), tr @ [update_call B tok owner repo name v,
                                     create_call tok owner repo name v])))"
  by (simp add: upsertGitHubVariable_def githubApiRequest_def bind_io_def fetch_def
        return_io_def throw_io_def res_ok_def update_call_def create_call_def
      split: fetch_result.split)

lemma status_404_not_ok: "\<not> status_ok 404"
  by (simp add: status_ok_def)

lemma example_store_acknowledges: "acknowledges example_store example_holds"
  by (auto simp: acknowledges_def example_store_def example_holds_def variable_body_def
        status_ok_def update_conv' split: if_splits)

subsection \<open>The trigger endpoint\<close>




lemma scan_forward_result:
  "scan_forward E w products =
     (if \<not> githubReady E
      then (respond 500 [(''ok'', JBool False), (''error'', JStr ''Missing env configuration'')], [])
      else if products = []
      then (respond 400 [(''ok'', JBool False), (''error'', JStr ''No valid products supplied'')], [])
      else
        (case w 0 of
           NetworkError e \<Rightarrow>
             (respond 500 [(''ok'', JBool False), (''error'', JStr e)],
              [router_call E (JObj [(''source'', JStr ''vercel_scan_api''),
                 (''command'', JStr ''scan''), (''products'', JArr products)])])
         | Response s t \<Rightarrow>
             if status_ok s
             then (respond 202 [(''ok'', JBool True), (''queued'', JBool True),
                                (''product_count'', json_of_nat (length products))],
                   [router_call E (JObj [(''source'', JStr ''vercel_scan_api''),
                      (''command'', JStr ''scan''), (''products'', JArr products)])])
             else (respond 500 [(''ok'', JBool False),
                     (''error'', JStr (''GitHub dispatch failed: '' @ String_int s @ '' '' @ t))],
                   [router_call E (JObj [(''source'', JStr ''vercel_scan_api''),
                      (''command'', JStr ''scan''), (''products'', JArr products)])])))"
  by (simp add: scan_forward_def githubReady_def Let_def dispatchToGitHub_def bind_io_def
        fetch_def throw_io_def return_io_def router_call_def
      split: fetch_result.split)

lemma scan_handler_result:
  assumes "scan_method req = ''POST''"
  shows "scan_handler B E w req =
     (if \<not> secret_configured E
      then (respond 500 [(''ok'', JBool False),
              (''error'', JStr ''Missing env configuration: SCAN_SECRET'')], [])
      else if \<not> bearer_matches E req
      then (respond 401 [(''ok'', JBool False), (''error'', JStr ''Unauthorized'')], [])
      else scan_forward E w (parseProducts B (body_or_empty (scan_body req))))"
  using assms
  by (simp add: scan_handler_def secret_configured_def bearer_matches_def Let_def
      split: option.split)

lemma failed_cases:
  "failed r \<longleftrightarrow> (case r of NetworkError e \<Rightarrow> True | Response s t \<Rightarrow> \<not> status_ok s)"
  by (cases r) simp_all







section \<open>The gates of the router\<close>

text \<open>
  C5, as amended. For every request to the router where a webhook secret is configured
  and the secret header of the request is not exactly that secret, no outbound call is
  made (no reply, no dispatch, no access to the variable store), and the response status
  is 401 when the request is a POST; a request with another method is answered 405
  before the secret is looked at.
\<close>

theorem secret_mismatch_rejected:
  assumes "set_nonempty (TELEGRAM_WEBHOOK_SECRET_TOKEN E)"
    and "req_secret_token req \<noteq> TELEGRAM_WEBHOOK_SECRET_TOKEN E"
  shows "snd (handler B E w req) = []
     \<and> (req_method req = ''POST'' \<longrightarrow> statusCode (fst (handler B E w req)) = 401)
     \<and> (req_method req \<noteq> ''POST'' \<longrightarrow> statusCode (fst (handler B E w req)) = 405)"
  using assms by (simp add: handler_def respond_def)

theorem secret_mismatch_rejected_witness:
  "set_nonempty (TELEGRAM_WEBHOOK_SECRET_TOKEN test_env)
   \<and> req_secret_token (chat_req ''POST'' (Some ''wrong'') (Some 123) (Some 999) ''/help'')
        \<noteq> TELEGRAM_WEBHOOK_SECRET_TOKEN test_env
   \<and> req_method (chat_req ''POST'' (Some ''wrong'') (Some 123) (Some 999) ''/help'') = ''POST''
   \<and> statusCode (fst (handler test_builtins test_env world_ok
                        (chat_req ''POST'' (Some ''wrong'') (Some 123) (Some 999) ''/help''))) = 401
   \<and> snd (handler test_builtins test_env world_ok
            (chat_req ''POST'' (Some ''wrong'') (Some 123) (Some 999) ''/help'')) = []
   \<and> req_method (chat_req ''PUT'' None (Some 123) (Some 999) ''/help'') \<noteq> ''POST''
   \<and> statusCode (fst (handler test_builtins test_env world_ok
                        (chat_req ''PUT'' None (Some 123) (Some 999) ''/help''))) = 405"
  using secret_mismatch_rejected
          [of test_env "chat_req ''POST'' (Some ''wrong'') (Some 123) (Some 999) ''/help''"
              test_builtins world_ok]
        secret_mismatch_rejected
          [of test_env "chat_req ''PUT'' None (Some 123) (Some 999) ''/help''"
              test_builtins world_ok]
  by (simp add: chat_req_def test_env_def)

text \<open>
  The claim as stated quantifies over every request: a GET request with a configured
  secret and a mismatching header is answered 405, not 401.
\<close>

theorem secret_mismatch_counterexample:
  "set_nonempty (TELEGRAM_WEBHOOK_SECRET_TOKEN test_env)
   \<and> req_secret_token (chat_req ''GET'' (Some ''wrong'') (Some 123) (Some 999) ''/help'')
        \<noteq> TELEGRAM_WEBHOOK_SECRET_TOKEN test_env
   \<and> statusCode (fst (handler test_builtins test_env world_ok
                        (chat_req ''GET'' (Some ''wrong'') (Some 123) (Some 999) ''/help''))) = 405"
  by (simp add: handler_def chat_req_def test_env_def respond_def)

text \<open>
  C8, as amended. For every request that gets to the structural gate (a POST whose
  secret header matches when a secret is configured, with the bot credential
  configured), if the Update lacks a chat identifier or its trimmed text does not start
  with the command prefix, the router responds 200 with the body
  \<open>{ ok: true, ignored: true }\<close> and makes no outbound call.
\<close>

theorem structurally_ignored:
  assumes "passes_authentication E req"
    and "the_chat_id req = None \<or> \<not> startsWith (the_text req) ''/''"
  shows "handler B E w req
           = (respond 200 [(''ok'', JBool True), (''ignored'', JBool True)], [])"
  using assms
  by (auto simp: handler_def passes_authentication_def Let_def split: option.splits)

theorem structurally_ignored_witness:
  "passes_authentication test_env
     (chat_req ''POST'' (Some ''webhook_secret'') (Some 123) (Some 999) ''hello'')
   \<and> \<not> startsWith (the_text (chat_req ''POST'' (Some ''webhook_secret'') (Some 123) (Some 999)
                                ''hello'')) ''/''
   \<and> handler test_builtins test_env world_ok
        (chat_req ''POST'' (Some ''webhook_secret'') (Some 123) (Some 999) ''hello'')
      = (respond 200 [(''ok'', JBool True), (''ignored'', JBool True)], [])"
  using structurally_ignored
          [of test_env "chat_req ''POST'' (Some ''webhook_secret'') (Some 123) (Some 999) ''hello''"
              test_builtins world_ok]
  by (simp add: passes_authentication_def chat_req_def test_env_def the_text_def
        the_message_def trim_def js_space_def startsWith_def)

text \<open>
  The claim as stated covers Updates that do not get to the structural gate: without a
  chat identifier, a request with a wrong secret is answered 401, a request when the bot
  credential is not configured 500, and a GET request 405.
\<close>

theorem structurally_ignored_counterexample:
  "the_chat_id (chat_req ''POST'' (Some ''wrong'') None None ''hello'') = None
   \<and> statusCode (fst (handler test_builtins test_env world_ok
                        (chat_req ''POST'' (Some ''wrong'') None None ''hello''))) = 401
   \<and> the_chat_id (chat_req ''POST'' (Some ''webhook_secret'') None None ''hello'') = None
   \<and> statusCode (fst (handler test_builtins (test_env\<lparr>TELEGRAM_BOT_TOKEN := None\<rparr>) world_ok
                        (chat_req ''POST'' (Some ''webhook_secret'') None None ''hello''))) = 500
   \<and> the_chat_id (chat_req ''GET'' (Some ''webhook_secret'') None None ''hello'') = None
   \<and> statusCode (fst (handler test_builtins test_env world_ok
                        (chat_req ''GET'' (Some ''webhook_secret'') None None ''hello''))) = 405"
  by (simp add: handler_def chat_req_def test_env_def respond_def the_chat_id_def
        the_message_def)

text \<open>
  C6, as amended. For every authenticated Update that gets past the structural gate (a
  POST with the bot credential configured, a chat identifier and a text starting with
  the command prefix), when the allowlist is not empty and the chat identifier, as a
  string, is not a member, the router makes exactly one outbound call, the denial
  reply, whose outcome is ignored (the statement holds in every world), runs no command,
  and responds 200 with the body \<open>{ ok: true, denied: true }\<close>. An unset or empty
  allowlist string allows every chat: the handler behaves as with any allowlist that
  has the chat as a member.
\<close>

theorem allowlist_gate:
  assumes "passes_authentication E req" and "passes_structural req"
    and "the_chat_id req = Some chatId"
  shows "(\<not> chat_allowed E chatId \<longrightarrow>
            handler B E w req
              = (respond 200 [(''ok'', JBool True), (''denied'', JBool True)],
                 [reply_call (template (TELEGRAM_BOT_TOKEN E)) chatId ''Chat non autorizzata.'']))
     \<and> (TELEGRAM_ALLOWED_CHAT_IDS E = None \<or> TELEGRAM_ALLOWED_CHAT_IDS E = Some [] \<longrightarrow>
            chat_allowed E chatId
            \<and> (\<forall>a. chat_allowed (E\<lparr>TELEGRAM_ALLOWED_CHAT_IDS := a\<rparr>) chatId \<longrightarrow>
                   handler B E w req = handler B (E\<lparr>TELEGRAM_ALLOWED_CHAT_IDS := a\<rparr>) w req))"
proof (intro conjI impI allI)
  assume "\<not> chat_allowed E chatId"
  with assms show "handler B E w req
              = (respond 200 [(''ok'', JBool True), (''denied'', JBool True)],
                 [reply_call (template (TELEGRAM_BOT_TOKEN E)) chatId ''Chat non autorizzata.''])"
    by (auto simp: handler_def passes_authentication_def passes_structural_def chat_allowed_def
          Let_def swallow_trace sendTelegramMessage_trace)
next
  assume u: "TELEGRAM_ALLOWED_CHAT_IDS E = None \<or> TELEGRAM_ALLOWED_CHAT_IDS E = Some []"
  then show ok: "chat_allowed E chatId"
    by (auto simp: chat_allowed_def parseAllowedChatIds_def trim_def)
  fix a
  assume a: "chat_allowed (E\<lparr>TELEGRAM_ALLOWED_CHAT_IDS := a\<rparr>) chatId"
  have pa: "passes_authentication (E\<lparr>TELEGRAM_ALLOWED_CHAT_IDS := a\<rparr>) req"
    using assms(1) by (simp add: passes_authentication_def)
  show "handler B E w req = handler B (E\<lparr>TELEGRAM_ALLOWED_CHAT_IDS := a\<rparr>) w req"
    by (simp add: handler_after_gates [OF assms ok] handler_after_gates [OF pa assms(2,3) a]
          run_command_allowlist split: prod.split sum.split)
qed

theorem allowlist_gate_witness:
  "passes_authentication (test_env\<lparr>TELEGRAM_ALLOWED_CHAT_IDS := Some ''42''\<rparr>)
       (chat_req ''POST'' (Some ''webhook_secret'') (Some 123) (Some 999) ''/status'')
   \<and> passes_structural
       (chat_req ''POST'' (Some ''webhook_secret'') (Some 123) (Some 999) ''/status'')
   \<and> the_chat_id (chat_req ''POST'' (Some ''webhook_secret'') (Some 123) (Some 999) ''/status'')
       = Some 123
   \<and> \<not> chat_allowed (test_env\<lparr>TELEGRAM_ALLOWED_CHAT_IDS := Some ''42''\<rparr>) 123
   \<and> handler test_builtins (test_env\<lparr>TELEGRAM_ALLOWED_CHAT_IDS := Some ''42''\<rparr>) world_down
       (chat_req ''POST'' (Some ''webhook_secret'') (Some 123) (Some 999) ''/status'')
     = (respond 200 [(''ok'', JBool True), (''denied'', JBool True)],
        [reply_call ''token'' 123 ''Chat non autorizzata.''])
   \<and> TELEGRAM_ALLOWED_CHAT_IDS test_env = Some []
   \<and> chat_allowed (test_env\<lparr>TELEGRAM_ALLOWED_CHAT_IDS := Some ''123''\<rparr>) 123
   \<and> handler test_builtins test_env world_ok
       (chat_req ''POST'' (Some ''webhook_secret'') (Some 123) (Some 999) ''/status'')
     = handler test_builtins (test_env\<lparr>TELEGRAM_ALLOWED_CHAT_IDS := Some ''123''\<rparr>) world_ok
         (chat_req ''POST'' (Some ''webhook_secret'') (Some 123) (Some 999) ''/status'')"
proof -
  let ?R = "chat_req ''POST'' (Some ''webhook_secret'') (Some 123) (Some 999) ''/status''"
  let ?E = "test_env\<lparr>TELEGRAM_ALLOWED_CHAT_IDS := Some ''42''\<rparr>"
  have a: "passes_authentication ?E ?R" by code_simp
  have a': "passes_authentication test_env ?R" by code_simp
  have b: "passes_structural ?R" by code_simp
  have c: "the_chat_id ?R = Some 123" by code_simp
  have d: "\<not> chat_allowed ?E 123" by code_simp
  have e: "TELEGRAM_ALLOWED_CHAT_IDS test_env = Some []" by (simp add: test_env_def)
  have f: "chat_allowed (test_env\<lparr>TELEGRAM_ALLOWED_CHAT_IDS := Some ''123''\<rparr>) 123"
    by code_simp
  have g: "template (TELEGRAM_BOT_TOKEN ?E) = ''token''" by (simp add: test_env_def)
  from allowlist_gate [OF a b c, of test_builtins world_down]
       allowlist_gate [OF a' b c, of test_builtins world_ok] a b c d e f g
  show ?thesis by simp
qed

text \<open>
  The claim as stated covers every authenticated Update: a text that is no command,
  from a chat that is not in the allowlist, is ignored without a call, not denied.
\<close>

theorem allowlist_gate_counterexample:
  "passes_authentication (test_env\<lparr>TELEGRAM_ALLOWED_CHAT_IDS := Some ''42''\<rparr>)
       (chat_req ''POST'' (Some ''webhook_secret'') (Some 123) (Some 999) ''hello'')
   \<and> parseAllowedChatIds (TELEGRAM_ALLOWED_CHAT_IDS
         (test_env\<lparr>TELEGRAM_ALLOWED_CHAT_IDS := Some ''42''\<rparr>)) = [''42'']
   \<and> String_int 123 = ''123''
   \<and> handler test_builtins (test_env\<lparr>TELEGRAM_ALLOWED_CHAT_IDS := Some ''42''\<rparr>) world_ok
       (chat_req ''POST'' (Some ''webhook_secret'') (Some 123) (Some 999) ''hello'')
     = (respond 200 [(''ok'', JBool True), (''ignored'', JBool True)], [])"
  by code_simp

section \<open>The acknowledgment of the router\<close>

text \<open>
  C1. For every Update that passes the authentication, structural and authorization
  gates, the response status is 200; and if the selected command raises an error at any
  point (a failed reply, a failed dispatch, a failed access to the variable store), the
  handler catches it, makes one more call, the error reply to the chat, whose own outcome
  is discarded (the statement holds in every world), and responds 200 with a body
  carrying \<open>ok: false\<close> and the error message. The handler is a total function to a
  response: no error leaves it.
\<close>

theorem handler_error_acknowledged:
  assumes "passes_authentication E req" and "passes_structural req"
    and "the_chat_id req = Some chatId" and "chat_allowed E chatId"
  shows "statusCode (fst (handler B E w req)) = 200
     \<and> (\<forall>details calls.
          run_command B E w (template (TELEGRAM_BOT_TOKEN E)) chatId (the_user_id req)
            (the_command req) (the_args req) [] = (Inl details, calls)
          \<longrightarrow> handler B E w req
                = (respond 200 [(''ok'', JBool False), (''error'', JStr details)],
                   calls @ [reply_call (template (TELEGRAM_BOT_TOKEN E)) chatId
                              (''Errore comando: '' @ details)]))"
proof -
  let ?run = "run_command B E w (template (TELEGRAM_BOT_TOKEN E)) chatId (the_user_id req)
                (the_command req) (the_args req)"
  note h = handler_after_gates [OF assms, of B w]
  obtain v calls where rc: "?run [] = (v, calls)" by (cases "?run []")
  have "statusCode (fst (handler B E w req)) = 200"
  proof (cases v)
    case (Inl e)
    with rc h show ?thesis by (simp add: respond_def)
  next
    case (Inr r)
    with rc have "fst (?run []) = Inr r" by simp
    with yields_only_run_command have "r = ok_response"
      unfolding yields_only_def by blast
    with rc h Inr show ?thesis by (simp add: ok_response_def respond_def)
  qed
  moreover have "\<forall>details calls. ?run [] = (Inl details, calls)
          \<longrightarrow> handler B E w req
                = (respond 200 [(''ok'', JBool False), (''error'', JStr details)],
                   calls @ [reply_call (template (TELEGRAM_BOT_TOKEN E)) chatId
                              (''Errore comando: '' @ details)])"
    using h by simp
  ultimately show ?thesis by blast
qed

theorem handler_error_acknowledged_witness:
  "passes_authentication test_env
       (chat_req ''POST'' (Some ''webhook_secret'') (Some 123) (Some 999) ''/profile balanced'')
   \<and> passes_structural
       (chat_req ''POST'' (Some ''webhook_secret'') (Some 123) (Some 999) ''/profile balanced'')
   \<and> the_chat_id
       (chat_req ''POST'' (Some ''webhook_secret'') (Some 123) (Some 999) ''/profile balanced'')
       = Some 123
   \<and> chat_allowed test_env 123
   \<and> handler test_builtins test_env world_down
       (chat_req ''POST'' (Some ''webhook_secret'') (Some 123) (Some 999) ''/profile balanced'')
     = (respond 200 [(''ok'', JBool False),
                     (''error'', JStr ''GitHub variable update failed: 500 down'')],
        [api_call (Some ''ghp_test'') ''PATCH''
           ''/repos/owner/repo/actions/variables/STRATEGY_PROFILE''
           (Some (variable_body ''STRATEGY_PROFILE'' ''balanced'')),
         reply_call ''token'' 123
           ''Errore comando: GitHub variable update failed: 500 down''])"
proof -
  let ?R = "chat_req ''POST'' (Some ''webhook_secret'') (Some 123) (Some 999) ''/profile balanced''"
  have a: "passes_authentication test_env ?R" by code_simp
  have b: "passes_structural ?R" by code_simp
  have c: "the_chat_id ?R = Some 123" by code_simp
  have d: "chat_allowed test_env 123" by code_simp
  have e: "run_command test_builtins test_env world_down (template (TELEGRAM_BOT_TOKEN test_env))
             123 (the_user_id ?R) (the_command ?R) (the_args ?R) []
        = (Inl ''GitHub variable update failed: 500 down'',
           [api_call (Some ''ghp_test'') ''PATCH''
              ''/repos/owner/repo/actions/variables/STRATEGY_PROFILE''
              (Some (variable_body ''STRATEGY_PROFILE'' ''balanced''))])"
    by code_simp
  have f: "template (TELEGRAM_BOT_TOKEN test_env) = ''token''" by (simp add: test_env_def)
  from handler_error_acknowledged [OF a b c d, of test_builtins world_down] e f a b c d
  show ?thesis by simp
qed

section \<open>The commands that dispatch\<close>

text \<open>
  C7. For the \<open>/scan\<close> command with the backend configured, on a request that passed
  the gates: when the argument, after the code fence is stripped, is the JSON text of one
  object, the handler makes exactly one dispatch call, whose \<open>client_payload.products\<close>
  is the list of that one object; with no argument it makes exactly one dispatch call,
  whose \<open>client_payload\<close> has no \<open>products\<close> field; when the argument is not valid
  JSON, or parses to no product object, the first call is a reply and there is no
  dispatch call.
\<close>

theorem scan_command_dispatch:
  assumes "passes_authentication E req" and "passes_structural req"
    and "the_chat_id req = Some chatId" and "chat_allowed E chatId"
    and "the_command req = ''scan''" and "githubReady E"
  shows "(\<forall>fields. the_args req \<noteq> []
            \<and> JSON_parse B (stripCodeFence (the_args req)) = Some (JObj fields) \<longrightarrow>
            dispatch_events (snd (handler B E w req))
              = [scan_payload chatId (the_user_id req) (Some [JObj fields])]
            \<and> get_prop (scan_payload chatId (the_user_id req) (Some [JObj fields])) ''products''
                = Some (JArr [JObj fields]))
     \<and> (the_args req = [] \<longrightarrow>
            dispatch_events (snd (handler B E w req)) = [scan_payload chatId (the_user_id req) None]
            \<and> get_prop (scan_payload chatId (the_user_id req) None) ''products'' = None)
     \<and> (the_args req \<noteq> []
          \<and> (JSON_parse B (stripCodeFence (the_args req)) = None
               \<or> parseProductsArg B (the_args req) = Some []) \<longrightarrow>
            dispatch_events (snd (handler B E w req)) = []
            \<and> (\<exists>text rest. snd (handler B E w req)
                   = reply_call (template (TELEGRAM_BOT_TOKEN E)) chatId text # rest))"
proof -
  let ?bt = "template (TELEGRAM_BOT_TOKEN E)"
  let ?u = "the_user_id req"
  have run: "run_command B E w ?bt chatId ?u (the_command req) (the_args req)
               = handle_scan B E w ?bt chatId ?u (the_args req)"
    using assms(5) by (simp add: run_command_def)
  note ev = events_handler [OF assms(1-4), of B w, unfolded run]
  from first_call_handler [OF assms(1-4), of B w] obtain rest where
    fc: "snd (handler B E w req) = snd (handle_scan B E w ?bt chatId ?u (the_args req) []) @ rest"
    unfolding run by blast
  have products_field: "get_prop (scan_payload chatId ?u ps) ''products''
        = (case ps of None \<Rightarrow> None | Some l \<Rightarrow> Some (JArr l))" for ps
    by (simp add: scan_payload_def payload_head_def payload_ids_def split: option.split)
  show ?thesis
  proof (intro conjI allI impI)
    fix fields
    assume a: "the_args req \<noteq> [] \<and> JSON_parse B (stripCodeFence (the_args req)) = Some (JObj fields)"
    then have "parseProductsArg B (the_args req) = Some [JObj fields]"
      by (simp add: parseProductsArg_def)
    with a assms(6) show "dispatch_events (snd (handler B E w req))
              = [scan_payload chatId ?u (Some [JObj fields])]"
      by (simp add: ev handle_scan_def scan_dispatch_def events_dispatch_reply)
    show "get_prop (scan_payload chatId ?u (Some [JObj fields])) ''products''
                = Some (JArr [JObj fields])"
      by (simp add: products_field)
  next
    assume a: "the_args req = []"
    with assms(6) show "dispatch_events (snd (handler B E w req)) = [scan_payload chatId ?u None]"
      by (simp add: ev handle_scan_def scan_dispatch_def events_dispatch_reply)
    show "get_prop (scan_payload chatId ?u None) ''products'' = None"
      by (simp add: products_field)
  next
    assume a: "the_args req \<noteq> []
          \<and> (JSON_parse B (stripCodeFence (the_args req)) = None
               \<or> parseProductsArg B (the_args req) = Some [])"
    have "JSON_parse B (stripCodeFence (the_args req)) = None
            \<Longrightarrow> parseProductsArg B (the_args req) = None"
      by (simp add: parseProductsArg_def)
    with a have p: "parseProductsArg B (the_args req) = None
                      \<or> parseProductsArg B (the_args req) = Some []"
      by blast
    with a assms(6) show "dispatch_events (snd (handler B E w req)) = []"
      by (auto simp: ev handle_scan_def events_reply_ok)
    from p a assms(6) have "\<exists>text. snd (handle_scan B E w ?bt chatId ?u (the_args req) [])
             = [reply_call ?bt chatId text]"
      by (auto simp: handle_scan_def reply_ok_trace)
    with fc show "\<exists>text rest. snd (handler B E w req) = reply_call ?bt chatId text # rest"
      by auto
  qed
qed

theorem scan_command_dispatch_witness:
  "passes_authentication test_env
       (chat_req ''POST'' (Some ''webhook_secret'') (Some 123) (Some 999) ''/scan {}'')
   \<and> passes_structural
       (chat_req ''POST'' (Some ''webhook_secret'') (Some 123) (Some 999) ''/scan {}'')
   \<and> chat_allowed test_env 123 \<and> githubReady test_env
   \<and> the_command (chat_req ''POST'' (Some ''webhook_secret'') (Some 123) (Some 999) ''/scan {}'')
       = ''scan''
   \<and> JSON_parse test_builtins (stripCodeFence (the_args
         (chat_req ''POST'' (Some ''webhook_secret'') (Some 123) (Some 999) ''/scan {}'')))
       = Some (JObj [])
   \<and> dispatch_events (snd (handler test_builtins test_env world_ok
       (chat_req ''POST'' (Some ''webhook_secret'') (Some 123) (Some 999) ''/scan {}'')))
     = [scan_payload 123 (Some 999) (Some [JObj []])]
   \<and> dispatch_events (snd (handler test_builtins test_env world_ok
       (chat_req ''POST'' (Some ''webhook_secret'') (Some 123) (Some 999) ''/scan'')))
     = [scan_payload 123 (Some 999) None]
   \<and> dispatch_events (snd (handler test_builtins test_env world_ok
       (chat_req ''POST'' (Some ''webhook_secret'') (Some 123) (Some 999) ''/scan {nope'')))
     = []"
proof -
  let ?R1 = "chat_req ''POST'' (Some ''webhook_secret'') (Some 123) (Some 999) ''/scan {}''"
  let ?R2 = "chat_req ''POST'' (Some ''webhook_secret'') (Some 123) (Some 999) ''/scan''"
  let ?R3 = "chat_req ''POST'' (Some ''webhook_secret'') (Some 123) (Some 999) ''/scan {nope''"
  have d: "chat_allowed test_env 123" by code_simp
  have g: "githubReady test_env" by code_simp
  have a1: "passes_authentication test_env ?R1" by code_simp
  have b1: "passes_structural ?R1" by code_simp
  have c1: "the_chat_id ?R1 = Some 123" by code_simp
  have e1: "the_command ?R1 = ''scan''" by code_simp
  have f1: "the_args ?R1 \<noteq> [] \<and> JSON_parse test_builtins (stripCodeFence (the_args ?R1))
              = Some (JObj [])" by code_simp
  have u1: "the_user_id ?R1 = Some 999" by code_simp
  have a2: "passes_authentication test_env ?R2" by code_simp
  have b2: "passes_structural ?R2" by code_simp
  have c2: "the_chat_id ?R2 = Some 123" by code_simp
  have e2: "the_command ?R2 = ''scan''" by code_simp
  have f2: "the_args ?R2 = []" by code_simp
  have u2: "the_user_id ?R2 = Some 999" by code_simp
  have a3: "passes_authentication test_env ?R3" by code_simp
  have b3: "passes_structural ?R3" by code_simp
  have c3: "the_chat_id ?R3 = Some 123" by code_simp
  have e3: "the_command ?R3 = ''scan''" by code_simp
  have f3: "the_args ?R3 \<noteq> [] \<and> JSON_parse test_builtins (stripCodeFence (the_args ?R3)) = None"
    by code_simp
  from scan_command_dispatch [OF a1 b1 c1 d e1 g, of test_builtins world_ok] f1 u1
  have r1: "dispatch_events (snd (handler test_builtins test_env world_ok ?R1))
              = [scan_payload 123 (Some 999) (Some [JObj []])]" by simp
  from scan_command_dispatch [OF a2 b2 c2 d e2 g, of test_builtins world_ok] f2 u2
  have r2: "dispatch_events (snd (handler test_builtins test_env world_ok ?R2))
              = [scan_payload 123 (Some 999) None]" by simp
  from scan_command_dispatch [OF a3 b3 c3 d e3 g, of test_builtins world_ok] f3
  have r3: "dispatch_events (snd (handler test_builtins test_env world_ok ?R3)) = []" by simp
  from a1 b1 d g e1 f1 r1 r2 r3 show ?thesis by simp
qed

text \<open>
  C9. For the \<open>/last\<close> command (backend configured, gates passed) the handler makes
  exactly one dispatch call, and the \<open>limit\<close> of its payload is \<open>last_limit\<close> of the
  argument: always in the interval from 1 to 10; 5 when the argument is absent; the
  integer that \<open>parseInt\<close> reads, clamped to that interval, when it reads one (in
  particular the decimal numeral of \<open>i\<close> gives \<open>max 1 (min i 10)\<close>); and 5 when
  \<open>parseInt\<close> gives no finite integer.
\<close>

theorem last_command_limit:
  assumes "passes_authentication E req" and "passes_structural req"
    and "the_chat_id req = Some chatId" and "chat_allowed E chatId"
    and "the_command req = ''last''" and "githubReady E"
  shows "dispatch_events (snd (handler B E w req))
           = [last_payload chatId (the_user_id req) (last_limit (the_args req))]
     \<and> get_prop (last_payload chatId (the_user_id req) (last_limit (the_args req))) ''limit''
           = Some (json_of_int (last_limit (the_args req)))
     \<and> 1 \<le> last_limit (the_args req) \<and> last_limit (the_args req) \<le> 10
     \<and> (the_args req = [] \<longrightarrow> last_limit (the_args req) = 5)
     \<and> (\<forall>n. the_args req \<noteq> [] \<and> parseInt10 (the_args req) = ParsedInt n \<longrightarrow>
              last_limit (the_args req) = max 1 (min n 10))
     \<and> (\<forall>i. \<bar>i\<bar> < DOUBLE_OVERFLOW \<and> the_args req = String_int i \<longrightarrow>
              last_limit (the_args req) = max 1 (min i 10))
     \<and> (the_args req \<noteq> []
          \<and> (parseInt10 (the_args req) = ParsedNaN \<or> parseInt10 (the_args req) = ParsedInfinity)
          \<longrightarrow> last_limit (the_args req) = 5)"
proof -
  let ?bt = "template (TELEGRAM_BOT_TOKEN E)"
  let ?u = "the_user_id req"
  have run: "run_command B E w ?bt chatId ?u (the_command req) (the_args req)
               = handle_last E w ?bt chatId ?u (the_args req)"
    using assms(5) by (simp add: run_command_def)
  have "dispatch_events (snd (handler B E w req))
           = [last_payload chatId ?u (last_limit (the_args req))]"
    using assms(6)
    by (simp add: events_handler [OF assms(1-4), of B w, unfolded run] handle_last_def Let_def
          events_dispatch_reply)
  have "get_prop (last_payload chatId ?u (last_limit (the_args req))) ''limit''
           = Some (json_of_int (last_limit (the_args req)))"
    by (simp add: last_payload_def payload_head_def payload_ids_def)
  have "the_args req = [] \<longrightarrow> last_limit (the_args req) = 5"
  proof
    assume e: "the_args req = []"
    have "parseInt10 ''5'' = ParsedInt 5" by code_simp
    with e show "last_limit (the_args req) = 5"
      by (simp add: last_limit_def MAX_LAST_LIMIT_def)
  qed
  have "\<forall>n. the_args req \<noteq> [] \<and> parseInt10 (the_args req) = ParsedInt n \<longrightarrow>
              last_limit (the_args req) = max 1 (min n 10)"
    by (simp add: last_limit_def MAX_LAST_LIMIT_def)
  have "\<forall>i. \<bar>i\<bar> < DOUBLE_OVERFLOW \<and> the_args req = String_int i \<longrightarrow>
              last_limit (the_args req) = max 1 (min i 10)"
    by (auto simp: last_limit_numeral)
  have "the_args req \<noteq> []
          \<and> (parseInt10 (the_args req) = ParsedNaN \<or> parseInt10 (the_args req) = ParsedInfinity)
          \<longrightarrow> last_limit (the_args req) = 5"
    by (auto simp: last_limit_def)
  have "1 \<le> last_limit (the_args req)" "last_limit (the_args req) \<le> 10"
    using last_limit_range [of "the_args req"] by simp_all
  show ?thesis by (intro conjI; fact)
qed

theorem last_command_limit_witness:
  "passes_authentication test_env
       (chat_req ''POST'' (Some ''webhook_secret'') (Some 123) (Some 999) ''/last 42'')
   \<and> passes_structural
       (chat_req ''POST'' (Some ''webhook_secret'') (Some 123) (Some 999) ''/last 42'')
   \<and> chat_allowed test_env 123 \<and> githubReady test_env
   \<and> the_command (chat_req ''POST'' (Some ''webhook_secret'') (Some 123) (Some 999) ''/last 42'')
       = ''last''
   \<and> parseInt10 (the_args
         (chat_req ''POST'' (Some ''webhook_secret'') (Some 123) (Some 999) ''/last 42''))
       = ParsedInt 42
   \<and> dispatch_events (snd (handler test_builtins test_env world_ok
       (chat_req ''POST'' (Some ''webhook_secret'') (Some 123) (Some 999) ''/last 42'')))
     = [last_payload 123 (Some 999) 10]
   \<and> dispatch_events (snd (handler test_builtins test_env world_ok
       (chat_req ''POST'' (Some ''webhook_secret'') (Some 123) (Some 999) ''/last'')))
     = [last_payload 123 (Some 999) 5]
   \<and> dispatch_events (snd (handler test_builtins test_env world_ok
       (chat_req ''POST'' (Some ''webhook_secret'') (Some 123) (Some 999) ''/last many'')))
     = [last_payload 123 (Some 999) 5]"
proof -
  let ?R1 = "chat_req ''POST'' (Some ''webhook_secret'') (Some 123) (Some 999) ''/last 42''"
  let ?R2 = "chat_req ''POST'' (Some ''webhook_secret'') (Some 123) (Some 999) ''/last''"
  let ?R3 = "chat_req ''POST'' (Some ''webhook_secret'') (Some 123) (Some 999) ''/last many''"
  have d: "chat_allowed test_env 123" by code_simp
  have g: "githubReady test_env" by code_simp
  have a1: "passes_authentication test_env ?R1" by code_simp
  have b1: "passes_structural ?R1" by code_simp
  have c1: "the_chat_id ?R1 = Some 123" by code_simp
  have e1: "the_command ?R1 = ''last''" by code_simp
  have f1: "the_args ?R1 \<noteq> [] \<and> parseInt10 (the_args ?R1) = ParsedInt 42" by code_simp
  have u1: "the_user_id ?R1 = Some 999" by code_simp
  have a2: "passes_authentication test_env ?R2" by code_simp
  have b2: "passes_structural ?R2" by code_simp
  have c2: "the_chat_id ?R2 = Some 123" by code_simp
  have e2: "the_command ?R2 = ''last''" by code_simp
  have f2: "the_args ?R2 = []" by code_simp
  have u2: "the_user_id ?R2 = Some 999" by code_simp
  have a3: "passes_authentication test_env ?R3" by code_simp
  have b3: "passes_structural ?R3" by code_simp
  have c3: "the_chat_id ?R3 = Some 123" by code_simp
  have e3: "the_command ?R3 = ''last''" by code_simp
  have f3: "the_args ?R3 \<noteq> [] \<and> parseInt10 (the_args ?R3) = ParsedNaN" by code_simp
  have u3: "the_user_id ?R3 = Some 999" by code_simp
  from last_command_limit [OF a1 b1 c1 d e1 g, of test_builtins world_ok] f1 u1
  have r1: "dispatch_events (snd (handler test_builtins test_env world_ok ?R1))
              = [last_payload 123 (Some 999) 10]" by simp
  from last_command_limit [OF a2 b2 c2 d e2 g, of test_builtins world_ok] f2 u2
  have r2: "dispatch_events (snd (handler test_builtins test_env world_ok ?R2))
              = [last_payload 123 (Some 999) 5]" by simp
  from last_command_limit [OF a3 b3 c3 d e3 g, of test_builtins world_ok] f3 u3
  have r3: "dispatch_events (snd (handler test_builtins test_env world_ok ?R3))
              = [last_payload 123 (Some 999) 5]" by simp
  from a1 b1 d g e1 f1 r1 r2 r3 show ?thesis by simp
qed

text \<open>
  C10. Every dispatch event that the router emits, whatever the command, carries
  \<open>source\<close> equal to \<open>telegram\<close>, a \<open>command\<close> string, \<open>chat_id\<close> as the chat
  identifier's string and \<open>user_id\<close> as a string, which is empty when the Update has
  no sender identifier; and the commands that dispatch without reading an argument
  (\<open>/smoke\<close>, \<open>/status\<close>, \<open>/last\<close>, \<open>/scan\<close> without argument) make their one
  dispatch call whether the sender identifier is there or not.
\<close>

theorem dispatch_payload_invariant:
  "(\<forall>c cp. c \<in> set (snd (handler B E w req)) \<and> client_payload c = Some cp \<longrightarrow>
      (\<exists>chatId. the_chat_id req = Some chatId
         \<and> get_prop cp ''source'' = Some (JStr ''telegram'')
         \<and> (\<exists>command. get_prop cp ''command'' = Some (JStr command))
         \<and> get_prop cp ''chat_id'' = Some (JStr (String_int chatId))
         \<and> get_prop cp ''user_id'' = Some (JStr (user_id_string (the_user_id req)))))
   \<and> user_id_string None = []
   \<and> (\<forall>chatId. passes_authentication E req \<and> passes_structural req
         \<and> the_chat_id req = Some chatId \<and> chat_allowed E chatId \<and> githubReady E
         \<and> (the_command req = ''smoke'' \<or> the_command req = ''status''
              \<or> the_command req = ''last''
              \<or> (the_command req = ''scan'' \<and> the_args req = [])) \<longrightarrow>
         (\<exists>pl. dispatch_events (snd (handler B E w req)) = [pl]))"
proof (intro conjI allI impI)
  fix c cp
  assume "c \<in> set (snd (handler B E w req)) \<and> client_payload c = Some cp"
  then show "\<exists>chatId. the_chat_id req = Some chatId
         \<and> get_prop cp ''source'' = Some (JStr ''telegram'')
         \<and> (\<exists>command. get_prop cp ''command'' = Some (JStr command))
         \<and> get_prop cp ''chat_id'' = Some (JStr (String_int chatId))
         \<and> get_prop cp ''user_id'' = Some (JStr (user_id_string (the_user_id req)))"
    using dispatch_payload_fields by blast
next
  show "user_id_string None = []" by (simp add: user_id_string_def)
next
  fix chatId
  assume "passes_authentication E req \<and> passes_structural req
         \<and> the_chat_id req = Some chatId \<and> chat_allowed E chatId \<and> githubReady E
         \<and> (the_command req = ''smoke'' \<or> the_command req = ''status''
              \<or> the_command req = ''last''
              \<or> (the_command req = ''scan'' \<and> the_args req = []))"
  then show "\<exists>pl. dispatch_events (snd (handler B E w req)) = [pl]"
    using dispatch_without_sender by blast
qed

theorem dispatch_payload_invariant_witness:
  "router_call test_env (status_payload 123 None)
     \<in> set (snd (handler test_builtins test_env world_ok
                 (chat_req ''POST'' (Some ''webhook_secret'') (Some 123) None ''/status'')))
   \<and> client_payload (router_call test_env (status_payload 123 None))
       = Some (status_payload 123 None)
   \<and> get_prop (status_payload 123 None) ''source'' = Some (JStr ''telegram'')
   \<and> get_prop (status_payload 123 None) ''chat_id'' = Some (JStr ''123'')
   \<and> get_prop (status_payload 123 None) ''user_id'' = Some (JStr [])
   \<and> (\<exists>pl. dispatch_events (snd (handler test_builtins test_env world_ok
                 (chat_req ''POST'' (Some ''webhook_secret'') (Some 123) None ''/status''))) = [pl])"
proof -
  let ?R = "chat_req ''POST'' (Some ''webhook_secret'') (Some 123) None ''/status''"
  let ?c = "router_call test_env (status_payload 123 None)"
  have m: "?c \<in> set (snd (handler test_builtins test_env world_ok ?R))" by code_simp
  have p: "client_payload ?c = Some (status_payload 123 None)" by simp
  have a: "passes_authentication test_env ?R" by code_simp
  have b: "passes_structural ?R" by code_simp
  have c: "the_chat_id ?R = Some 123" by code_simp
  have d: "chat_allowed test_env 123" by code_simp
  have g: "githubReady test_env" by code_simp
  have e: "the_command ?R = ''status''" by code_simp
  have u: "the_user_id ?R = None" by code_simp
  have s: "String_int 123 = ''123''" by code_simp
  note inv = dispatch_payload_invariant [of test_builtins test_env world_ok ?R]
  from inv [THEN conjunct1] m p
  have "\<exists>chatId. the_chat_id ?R = Some chatId
         \<and> get_prop (status_payload 123 None) ''source'' = Some (JStr ''telegram'')
         \<and> (\<exists>command. get_prop (status_payload 123 None) ''command'' = Some (JStr command))
         \<and> get_prop (status_payload 123 None) ''chat_id'' = Some (JStr (String_int chatId))
         \<and> get_prop (status_payload 123 None) ''user_id''
               = Some (JStr (user_id_string (the_user_id ?R)))"
    by blast
  with c u s inv [THEN conjunct2, THEN conjunct1] have fields:
    "get_prop (status_payload 123 None) ''source'' = Some (JStr ''telegram'')"
    "get_prop (status_payload 123 None) ''chat_id'' = Some (JStr ''123'')"
    "get_prop (status_payload 123 None) ''user_id'' = Some (JStr [])"
    by simp_all
  from inv [THEN conjunct2, THEN conjunct2] a b c d g e
  have "\<exists>pl. dispatch_events (snd (handler test_builtins test_env world_ok ?R)) = [pl]"
    by blast
  with m p fields show ?thesis by simp
qed

section \<open>The remote variable client\<close>

text \<open>
  C4. \<open>upsertGitHubVariable\<close> always issues the PATCH update first; it issues the POST
  create, with the same \<open>{ name, value }\<close> body, if and only if the PATCH is answered
  404, and nothing after it; it raises an error exactly when the PATCH fails otherwise
  than by a 404 (a rejected call or any other status that is not a success), or the PATCH
  is answered 404 and the POST fails; after a return without error the last request
  made, a write of \<open>{ name, value }\<close>, was answered with a success status, so that a
  store whose success answer to a write means that the value is held (\<open>acknowledges\<close>)
  holds the new value under the name.
\<close>

theorem upsert_protocol:
  assumes "upsertGitHubVariable B w tok owner repo name v tr = (r, calls)"
  shows "(\<exists>rest. calls = tr @ update_call B tok owner repo name v # rest)
     \<and> (calls = tr @ [update_call B tok owner repo name v, create_call tok owner repo name v]
          \<longleftrightarrow> not_found (w (length tr)))
     \<and> (calls = tr @ [update_call B tok owner repo name v] \<longleftrightarrow> \<not> not_found (w (length tr)))
     \<and> payload (update_call B tok owner repo name v) = Some (variable_body name v)
     \<and> payload (create_call tok owner repo name v) = Some (variable_body name v)
     \<and> ((\<exists>e. r = Inl e) \<longleftrightarrow>
            (failed (w (length tr)) \<and> \<not> not_found (w (length tr)))
            \<or> (not_found (w (length tr)) \<and> failed (w (Suc (length tr)))))
     \<and> (r = Inr () \<longrightarrow> calls \<noteq> [] \<and> \<not> failed (w (length calls - 1))
            \<and> payload (last calls) = Some (variable_body name v))
     \<and> (\<forall>(serve :: 'st \<Rightarrow> fetch_call \<Rightarrow> fetch_result \<times> 'st) holds st.
            r = Inr () \<and> tr = [] \<and> acknowledges serve holds
            \<and> answered_by w serve st calls
            \<longrightarrow> holds (snd (run_store serve st calls)) name v)"
proof -
  let ?u = "update_call B tok owner repo name v"
  let ?c = "create_call tok owner repo name v"
  have pl: "payload ?u = Some (variable_body name v)" "payload ?c = Some (variable_body name v)"
    by (simp_all add: update_call_def create_call_def api_call_def)
  have shape: "calls = tr @ [?u] \<or> calls = tr @ [?u, ?c]"
    using assms by (auto simp: upsert_result split: fetch_result.splits if_splits)
  have stored: "holds (snd (run_store serve st calls)) name v"
    if h: "r = Inr ()" "tr = []" "acknowledges serve holds" "answered_by w serve st calls"
    for serve :: "'st \<Rightarrow> fetch_call \<Rightarrow> fetch_result \<times> 'st" and holds st
  proof -
    have ack: "holds (snd (serve s c)) n x"
      if "payload c = Some (variable_body n x)" "\<not> failed (fst (serve s c))" for s c n x
      using h(3) that unfolding acknowledges_def by blast
    from shape show ?thesis
    proof
      assume c1: "calls = tr @ [?u]"
      with h(2,4) have w0: "w 0 = fst (serve st ?u)"
        by (simp add: answered_by_def split: prod.splits)
      from c1 assms h(1,2) have "\<not> failed (w 0)"
        by (auto simp: upsert_result status_404_not_ok split: fetch_result.splits if_splits)
      with w0 pl(1) have "holds (snd (serve st ?u)) name v"
        by (intro ack) simp_all
      with c1 h(2) show ?thesis by (auto split: prod.splits)
    next
      assume c2: "calls = tr @ [?u, ?c]"
      with h(2,4) have w1: "w (Suc 0) = fst (serve (snd (serve st ?u)) ?c)"
        by (simp add: answered_by_def upt_rec numeral_2_eq_2 split: prod.splits)
      from c2 assms h(1,2) have "\<not> failed (w (Suc 0))"
        by (auto simp: upsert_result status_404_not_ok split: fetch_result.splits if_splits)
      with w1 pl(2) have "holds (snd (serve (snd (serve st ?u)) ?c)) name v"
        by (intro ack) simp_all
      with c2 h(2) show ?thesis by (auto split: prod.splits)
    qed
  qed
  have main: "(\<exists>rest. calls = tr @ ?u # rest)
     \<and> (calls = tr @ [?u, ?c] \<longleftrightarrow> not_found (w (length tr)))
     \<and> (calls = tr @ [?u] \<longleftrightarrow> \<not> not_found (w (length tr)))
     \<and> payload ?u = Some (variable_body name v)
     \<and> payload ?c = Some (variable_body name v)
     \<and> ((\<exists>e. r = Inl e) \<longleftrightarrow>
            (failed (w (length tr)) \<and> \<not> not_found (w (length tr)))
            \<or> (not_found (w (length tr)) \<and> failed (w (Suc (length tr)))))
     \<and> (r = Inr () \<longrightarrow> calls \<noteq> [] \<and> \<not> failed (w (length calls - 1))
            \<and> payload (last calls) = Some (variable_body name v))"
  proof (cases "w (length tr)")
    case (NetworkError e)
    with assms show ?thesis by (auto simp: upsert_result pl)
  next
    case (Response s t)
    show ?thesis
    proof (cases "s = 404")
      case False
      with Response assms show ?thesis
        by (auto simp: upsert_result pl split: if_splits)
    next
      case True
      show ?thesis
      proof (cases "w (Suc (length tr))")
        case (NetworkError e)
        with True Response assms show ?thesis
          by (auto simp: upsert_result pl status_404_not_ok)
      next
        case r2: (Response s' t')
        with True Response assms show ?thesis
          by (auto simp: upsert_result pl status_404_not_ok split: if_splits)
      qed
    qed
  qed
  have "\<forall>(serve :: 'st \<Rightarrow> fetch_call \<Rightarrow> fetch_result \<times> 'st) holds st.
            r = Inr () \<and> tr = [] \<and> acknowledges serve holds
            \<and> answered_by w serve st calls
            \<longrightarrow> holds (snd (run_store serve st calls)) name v"
  proof (intro allI impI)
    fix serve :: "'st \<Rightarrow> fetch_call \<Rightarrow> fetch_result \<times> 'st" and holds st
    assume "r = Inr () \<and> tr = [] \<and> acknowledges serve holds \<and> answered_by w serve st calls"
    then show "holds (snd (run_store serve st calls)) name v"
      using stored [of serve holds st] by simp
  qed
  with main show ?thesis by - (elim conjE, intro conjI, assumption+)
qed

theorem upsert_protocol_witness:
  "upsertGitHubVariable test_builtins world_absent (Some ''ghp_test'') (Some ''owner'')
       (Some ''repo'') STRATEGY_PROFILE_VAR ''balanced'' []
     = (Inr (), [update_call test_builtins (Some ''ghp_test'') (Some ''owner'') (Some ''repo'')
                   STRATEGY_PROFILE_VAR ''balanced'',
                 create_call (Some ''ghp_test'') (Some ''owner'') (Some ''repo'')
                   STRATEGY_PROFILE_VAR ''balanced''])
   \<and> not_found (world_absent 0)
   \<and> \<not> failed (world_absent 1)
   \<and> acknowledges example_store example_holds
   \<and> answered_by world_absent example_store []
         [update_call test_builtins (Some ''ghp_test'') (Some ''owner'') (Some ''repo'')
            STRATEGY_PROFILE_VAR ''balanced'',
          create_call (Some ''ghp_test'') (Some ''owner'') (Some ''repo'')
            STRATEGY_PROFILE_VAR ''balanced'']
   \<and> example_holds (snd (run_store example_store []
         [update_call test_builtins (Some ''ghp_test'') (Some ''owner'') (Some ''repo'')
            STRATEGY_PROFILE_VAR ''balanced'',
          create_call (Some ''ghp_test'') (Some ''owner'') (Some ''repo'')
            STRATEGY_PROFILE_VAR ''balanced''])) STRATEGY_PROFILE_VAR ''balanced''"
proof -
  let ?u = "update_call test_builtins (Some ''ghp_test'') (Some ''owner'') (Some ''repo'')
              STRATEGY_PROFILE_VAR ''balanced''"
  let ?c = "create_call (Some ''ghp_test'') (Some ''owner'') (Some ''repo'')
              STRATEGY_PROFILE_VAR ''balanced''"
  obtain r calls where rc: "upsertGitHubVariable test_builtins world_absent (Some ''ghp_test'')
       (Some ''owner'') (Some ''repo'') STRATEGY_PROFILE_VAR ''balanced'' [] = (r, calls)"
    by (cases "upsertGitHubVariable test_builtins world_absent (Some ''ghp_test'')
       (Some ''owner'') (Some ''repo'') STRATEGY_PROFILE_VAR ''balanced'' []")
  have nf: "not_found (world_absent 0)" by (simp add: world_absent_def)
  have ok: "\<not> failed (world_absent (Suc 0))" by (simp add: world_absent_def status_ok_def)
  have ab: "answered_by world_absent example_store [] [?u, ?c]" by code_simp
  note p = upsert_protocol [OF rc]
  from p [THEN conjunct2, THEN conjunct1] nf have calls: "calls = [?u, ?c]" by simp
  from p [THEN conjunct2, THEN conjunct2, THEN conjunct2, THEN conjunct2, THEN conjunct2,
          THEN conjunct1] nf ok
  have "\<not> (\<exists>e. r = Inl e)" by simp
  then have r: "r = Inr ()" by (cases r) auto
  from ab calls have ab': "answered_by world_absent example_store [] calls" by simp
  have "example_holds (snd (run_store example_store [] calls)) STRATEGY_PROFILE_VAR ''balanced''"
    by (rule p [THEN conjunct2, THEN conjunct2, THEN conjunct2, THEN conjunct2, THEN conjunct2,
                THEN conjunct2, THEN conjunct2, rule_format])
       (simp add: r ab' example_store_acknowledges)
  with calls
  have "example_holds (snd (run_store example_store [] [?u, ?c])) STRATEGY_PROFILE_VAR ''balanced''"
    by simp
  with rc calls r nf ok ab example_store_acknowledges show ?thesis by simp
qed

section \<open>The direct trigger endpoint: status and products\<close>

text \<open>
  C2, as amended. For a POST request to the trigger endpoint: when the shared secret is
  not configured (unset, empty or blank) the status is 500 whatever the Authorization
  header, and no call is made; when it is configured and the header is missing or is not
  \<open>Bearer\<close> followed by the trimmed secret, the status is 401; with the right header and
  the dispatch backend configured, a body without a valid product gives 400, and a body
  with at least one valid product gives 202 with \<open>product_count\<close> equal to the number
  of accepted products when the one dispatch call succeeds; with the right header, the
  status is 500 when the backend is not configured or the dispatch call fails.
\<close>

theorem scan_handler_status:
  assumes "scan_method req = ''POST''"
  shows "(\<not> secret_configured E \<longrightarrow>
            statusCode (fst (scan_handler B E w req)) = 500 \<and> snd (scan_handler B E w req) = [])
     \<and> (secret_configured E \<and> \<not> bearer_matches E req \<longrightarrow>
            statusCode (fst (scan_handler B E w req)) = 401 \<and> snd (scan_handler B E w req) = [])
     \<and> (secret_configured E \<and> bearer_matches E req \<and> githubReady E
          \<and> parseProducts B (body_or_empty (scan_body req)) = [] \<longrightarrow>
            statusCode (fst (scan_handler B E w req)) = 400 \<and> snd (scan_handler B E w req) = [])
     \<and> (secret_configured E \<and> bearer_matches E req \<and> githubReady E
          \<and> parseProducts B (body_or_empty (scan_body req)) \<noteq> [] \<and> \<not> failed (w 0) \<longrightarrow>
            fst (scan_handler B E w req)
              = respond 202 [(''ok'', JBool True), (''queued'', JBool True),
                  (''product_count'',
                   json_of_nat (length (parseProducts B (body_or_empty (scan_body req)))))]
            \<and> length (snd (scan_handler B E w req)) = 1)
     \<and> (secret_configured E \<and> bearer_matches E req
          \<and> (\<not> githubReady E
               \<or> (parseProducts B (body_or_empty (scan_body req)) \<noteq> [] \<and> failed (w 0))) \<longrightarrow>
            statusCode (fst (scan_handler B E w req)) = 500)"
  by (auto simp: scan_handler_result [OF assms] scan_forward_result respond_def failed_cases
      split: fetch_result.splits)

theorem scan_handler_status_witness:
  "scan_method (scan_req ''POST'' (Some ''Bearer scan_secret'') [iphone]) = ''POST''
   \<and> \<not> secret_configured (test_env\<lparr>SCAN_SECRET := None\<rparr>)
   \<and> statusCode (fst (scan_handler test_builtins (test_env\<lparr>SCAN_SECRET := None\<rparr>) world_ok
                        (scan_req ''POST'' (Some ''Bearer scan_secret'') [iphone]))) = 500
   \<and> secret_configured test_env
   \<and> \<not> bearer_matches test_env (scan_req ''POST'' None [iphone])
   \<and> statusCode (fst (scan_handler test_builtins test_env world_ok
                        (scan_req ''POST'' None [iphone]))) = 401
   \<and> bearer_matches test_env (scan_req ''POST'' (Some ''Bearer scan_secret'') [])
   \<and> githubReady test_env
   \<and> statusCode (fst (scan_handler test_builtins test_env world_ok
                        (scan_req ''POST'' (Some ''Bearer scan_secret'') []))) = 400
   \<and> \<not> failed (world_ok 0)
   \<and> fst (scan_handler test_builtins test_env world_ok
            (scan_req ''POST'' (Some ''Bearer scan_secret'') [iphone]))
       = respond 202 [(''ok'', JBool True), (''queued'', JBool True),
                      (''product_count'', json_of_nat 1)]
   \<and> failed (world_down 0)
   \<and> statusCode (fst (scan_handler test_builtins test_env world_down
                        (scan_req ''POST'' (Some ''Bearer scan_secret'') [iphone]))) = 500"
proof -
  let ?R = "scan_req ''POST'' (Some ''Bearer scan_secret'') [iphone]"
  let ?Rempty = "scan_req ''POST'' (Some ''Bearer scan_secret'') []"
  let ?Rnone = "scan_req ''POST'' None [iphone]"
  let ?Eopen = "test_env\<lparr>SCAN_SECRET := None\<rparr>"
  have post: "scan_method ?R = ''POST''" "scan_method ?Rempty = ''POST''" "scan_method ?Rnone = ''POST''"
    by (simp_all add: scan_req_def)
  have sc: "secret_configured test_env" "\<not> secret_configured ?Eopen" by code_simp+
  have bm: "bearer_matches test_env ?R" "bearer_matches test_env ?Rempty"
           "\<not> bearer_matches test_env ?Rnone" by code_simp+
  have gr: "githubReady test_env" by code_simp
  have pp: "parseProducts test_builtins (body_or_empty (scan_body ?R)) \<noteq> []"
           "length (parseProducts test_builtins (body_or_empty (scan_body ?R))) = 1"
           "parseProducts test_builtins (body_or_empty (scan_body ?Rempty)) = []" by code_simp+
  have w: "\<not> failed (world_ok 0)" "failed (world_down 0)"
    by (simp_all add: world_ok_def world_down_def status_ok_def)
  from scan_handler_status [OF post(1), of ?Eopen test_builtins world_ok] sc
  have r1: "statusCode (fst (scan_handler test_builtins ?Eopen world_ok ?R)) = 500" by simp
  from scan_handler_status [OF post(3), of test_env test_builtins world_ok] sc bm
  have r2: "statusCode (fst (scan_handler test_builtins test_env world_ok ?Rnone)) = 401" by simp
  from scan_handler_status [OF post(2), of test_env test_builtins world_ok] sc bm gr pp
  have r3: "statusCode (fst (scan_handler test_builtins test_env world_ok ?Rempty)) = 400" by simp
  from scan_handler_status [OF post(1), of test_env test_builtins world_ok] sc bm gr pp w
  have r4: "fst (scan_handler test_builtins test_env world_ok ?R)
       = respond 202 [(''ok'', JBool True), (''queued'', JBool True),
                      (''product_count'', json_of_nat 1)]" by simp
  from scan_handler_status [OF post(1), of test_env test_builtins world_down] sc bm gr pp w
  have r5: "statusCode (fst (scan_handler test_builtins test_env world_down ?R)) = 500" by simp
  from post sc bm gr w r1 r2 r3 r4 r5 show ?thesis by simp
qed

text \<open>
  The claim as stated maps the secret, the header and the products alone to the status:
  with the right header and one valid product, the status is 500 when the dispatch call
  fails or the backend is not configured (also with no valid product, where the claim
  says 400), and a request that is not a POST is answered 405.
\<close>

theorem scan_handler_status_counterexample:
  "secret_configured test_env
   \<and> bearer_matches test_env (scan_req ''POST'' (Some ''Bearer scan_secret'') [iphone])
   \<and> length (parseProducts test_builtins
        (body_or_empty (scan_body (scan_req ''POST'' (Some ''Bearer scan_secret'') [iphone])))) = 1
   \<and> statusCode (fst (scan_handler test_builtins test_env world_down
                        (scan_req ''POST'' (Some ''Bearer scan_secret'') [iphone]))) = 500
   \<and> statusCode (fst (scan_handler test_builtins (test_env\<lparr>GITHUB_TOKEN := None\<rparr>) world_ok
                        (scan_req ''POST'' (Some ''Bearer scan_secret'') [iphone]))) = 500
   \<and> statusCode (fst (scan_handler test_builtins (test_env\<lparr>GITHUB_TOKEN := None\<rparr>) world_ok
                        (scan_req ''POST'' (Some ''Bearer scan_secret'') []))) = 500
   \<and> statusCode (fst (scan_handler test_builtins test_env world_ok
                        (scan_req ''GET'' None [iphone]))) = 405"
  by code_simp

text \<open>
  The file \<open>api/scan.js\<close> holds an earlier revision of the endpoint, without the
  fail-closed check and without the normalizer: there an unset secret lets the request
  through, and an object with a title and no price is accepted.
\<close>

lemma scan_handler_v0_unconfigured:
  "SCAN_SECRET (test_env\<lparr>SCAN_SECRET := None\<rparr>) = None
   \<and> statusCode (fst (scan_handler_v0 (test_env\<lparr>SCAN_SECRET := None\<rparr>) world_ok
                        (scan_req ''POST'' None [JObj [(''title'', JStr ''Only title'')]]))) = 202
   \<and> parseProducts_v0 (JObj [(''products'', JArr [JObj [(''title'', JStr ''Only title'')]])])
       = [JObj [(''title'', JStr ''Only title'')]]
   \<and> parseProducts test_builtins (JObj [(''products'', JArr [JObj [(''title'', JStr ''Only title'')]])])
       = []"
  by code_simp




text \<open>
  The earlier revision in \<open>api/scan.js\<close> has no normalizer: its \<open>parseProducts\<close>
  returns the candidates as they are, so the title is not trimmed and no \<open>price_eur\<close>
  is written.
\<close>

lemma parseProducts_v0_unchanged:
  "parseProducts_v0 (JObj [(''products'', JArr [iphone])]) = [iphone]
   \<and> get_prop iphone ''title'' = Some (JStr '' iPhone 14 '')
   \<and> get_prop iphone ''price_eur'' = None"
  by code_simp

end
